theory Spec2Isabelle
  imports Main "HOL-Library.Word"
begin

unbundle bit_operations_syntax

section \<open>The ARI data model (ace/ari.py)\<close>

text \<open>
  Octets are 8-bit words; Python's \<open>bytes\<close> is a list of them. Python text is modelled on
  its ASCII subset as a \<open>string\<close>, one character per octet of its UTF-8 form.
\<close>

type_synonym byte = "8 word"
type_synonym bytes = "byte list"

text \<open>
  The exceptions the modelled code can raise. \<open>ParseError\<close> is the codecs' own class (a
  \<open>RuntimeError\<close>); \<open>StructError\<close> is \<open>struct.error\<close>; \<open>CBORDecodeEOF\<close> and
  \<open>CBORDecodeValueError\<close> belong to the cbor2 library; \<open>MultipleResultsFound\<close> to the
  ORM's \<open>one_or_none\<close>. The last two are not exceptions: \<open>Unmodelled\<close> marks an input
  of the external cbor2 library that lies outside the part of CBOR modelled here, and
  \<open>OutOfFuel\<close> that a recursion bound of the model was reached.
\<close>

datatype error =
    ParseError
  | RuntimeError
  | NotImplementedError
  | AttributeError
  | TypeError
  | ValueError
  | OverflowError
  | KeyError
  | IndexError
  | StructError
  | CBORDecodeEOF
  | CBORDecodeValueError
  | MultipleResultsFound
  | Unmodelled
  | OutOfFuel

text \<open>Sequencing of fallible steps: the first exception ends the computation.\<close>

definition bindE :: "error + 'a \<Rightarrow> ('a \<Rightarrow> error + 'b) \<Rightarrow> error + 'b" where
  "bindE m f = (case m of Inl e \<Rightarrow> Inl e | Inr x \<Rightarrow> f x)"

text \<open>\<open>StructType\<close>, in the order the enumeration declares its members. \<open>CONST\<close>, \<open>STR\<close>
  and \<open>INT\<close> are reserved words of the logic's syntax and carry a prime here.\<close>

datatype StructType =
    MDAT | CONST' | CTRL | EDD | LIT | MAC | OPER | RPTT | SBR | TBLT | TBR | VAR
  | BOOL | BYTE | STR' | INT' | UINT | VAST | UVAST | REAL32 | REAL64 | UNK
  | TV | TS | TNVC | ARI | AC | EXPR | BSTR

fun StructType_value :: "StructType \<Rightarrow> int" where
  "StructType_value MDAT = -1"
| "StructType_value CONST' = 0"
| "StructType_value CTRL = 1"
| "StructType_value EDD = 2"
| "StructType_value LIT = 3"
| "StructType_value MAC = 4"
| "StructType_value OPER = 5"
| "StructType_value RPTT = 7"
| "StructType_value SBR = 8"
| "StructType_value TBLT = 10"
| "StructType_value TBR = 11"
| "StructType_value VAR = 12"
| "StructType_value BOOL = 16"
| "StructType_value BYTE = 17"
| "StructType_value STR' = 18"
| "StructType_value INT' = 19"
| "StructType_value UINT = 20"
| "StructType_value VAST = 21"
| "StructType_value UVAST = 22"
| "StructType_value REAL32 = 23"
| "StructType_value REAL64 = 24"
| "StructType_value UNK = -25"
| "StructType_value TV = 32"
| "StructType_value TS = 33"
| "StructType_value TNVC = 35"
| "StructType_value ARI = 36"
| "StructType_value AC = 37"
| "StructType_value EXPR = 38"
| "StructType_value BSTR = 39"

definition StructType_members :: "StructType list" where
  "StructType_members =
     [MDAT, CONST', CTRL, EDD, LIT, MAC, OPER, RPTT, SBR, TBLT, TBR, VAR,
      BOOL, BYTE, STR', INT', UINT, VAST, UVAST, REAL32, REAL64, UNK,
      TV, TS, TNVC, ARI, AC, EXPR, BSTR]"

text \<open>\<open>StructType(n)\<close>: the member with that value, or \<open>ValueError\<close>.\<close>

definition StructType_of_value :: "int \<Rightarrow> error + StructType" where
  "StructType_of_value n =
     (case filter (\<lambda>t. StructType_value t = n) StructType_members of
        [] \<Rightarrow> Inl ValueError
      | t # _ \<Rightarrow> Inr t)"

fun StructType_name :: "StructType \<Rightarrow> string" where
  "StructType_name MDAT = ''MDAT''"
| "StructType_name CONST' = ''CONST''"
| "StructType_name CTRL = ''CTRL''"
| "StructType_name EDD = ''EDD''"
| "StructType_name LIT = ''LIT''"
| "StructType_name MAC = ''MAC''"
| "StructType_name OPER = ''OPER''"
| "StructType_name RPTT = ''RPTT''"
| "StructType_name SBR = ''SBR''"
| "StructType_name TBLT = ''TBLT''"
| "StructType_name TBR = ''TBR''"
| "StructType_name VAR = ''VAR''"
| "StructType_name BOOL = ''BOOL''"
| "StructType_name BYTE = ''BYTE''"
| "StructType_name STR' = ''STR''"
| "StructType_name INT' = ''INT''"
| "StructType_name UINT = ''UINT''"
| "StructType_name VAST = ''VAST''"
| "StructType_name UVAST = ''UVAST''"
| "StructType_name REAL32 = ''REAL32''"
| "StructType_name REAL64 = ''REAL64''"
| "StructType_name UNK = ''UNK''"
| "StructType_name TV = ''TV''"
| "StructType_name TS = ''TS''"
| "StructType_name TNVC = ''TNVC''"
| "StructType_name ARI = ''ARI''"
| "StructType_name AC = ''AC''"
| "StructType_name EXPR = ''EXPR''"
| "StructType_name BSTR = ''BSTR''"

text \<open>\<open>StructType[name]\<close>: the member with exactly that name, or \<open>KeyError\<close>.\<close>

definition StructType_by_name :: "string \<Rightarrow> error + StructType" where
  "StructType_by_name s =
     (case filter (\<lambda>t. StructType_name t = s) StructType_members of
        [] \<Rightarrow> Inl KeyError
      | t # _ \<Rightarrow> Inr t)"

definition LITERAL_TYPES :: "StructType list" where
  "LITERAL_TYPES =
     [BOOL, BYTE, INT', UINT, VAST, UVAST, REAL32, REAL64, UNK, STR', BSTR, TV, TS]"

definition LITERAL_LABEL_TYPES :: "StructType list" where
  "LITERAL_LABEL_TYPES =
     [BYTE, INT', UINT, VAST, UVAST, REAL32, REAL64, UNK, TV, TS]"

text \<open>
  \<open>NUMERIC_LIMITS\<close>. The limits of the two floating-point rows are Python floats, that
  is binary64 numbers, and both are integers: \<open>3.4028235e+38\<close> is read as
  \<open>9007198806847480 * 2^75\<close>, which lies above the largest binary32 number
  \<open>(2^24 - 1) * 2^104\<close>, and \<open>1.7976931348623157e+308\<close> is the largest binary64 number
  \<open>(2^53 - 1) * 2^971\<close>. Python compares an integer with a float exactly, so the
  comparison with an integer value is that with these integers.
\<close>

fun NUMERIC_LIMITS :: "StructType \<Rightarrow> (int \<times> int) option" where
  "NUMERIC_LIMITS BYTE = Some (0, 2 ^ 8 - 1)"
| "NUMERIC_LIMITS INT' = Some (- (2 ^ 31), 2 ^ 31 - 1)"
| "NUMERIC_LIMITS UINT = Some (0, 2 ^ 32 - 1)"
| "NUMERIC_LIMITS VAST = Some (- (2 ^ 63), 2 ^ 63 - 1)"
| "NUMERIC_LIMITS UVAST = Some (0, 2 ^ 64 - 1)"
| "NUMERIC_LIMITS REAL32 = Some (- (9007198806847480 * 2 ^ 75), 9007198806847480 * 2 ^ 75)"
| "NUMERIC_LIMITS REAL64 = Some (- ((2 ^ 53 - 1) * 2 ^ 971), (2 ^ 53 - 1) * 2 ^ 971)"
| "NUMERIC_LIMITS UNK = Some (0, 0)"
| "NUMERIC_LIMITS TV = Some (0, 2 ^ 64 - 1)"
| "NUMERIC_LIMITS TS = Some (0, 2 ^ 64 - 1)"
| "NUMERIC_LIMITS _ = None"

text \<open>
  A literal's \<open>value\<close> is any Python object. The model has the scalars the two codecs
  produce, floating-point numbers apart: \<open>None\<close>, booleans, unbounded integers, text and
  byte strings.
\<close>

datatype pyval = PNone | PBool bool | PInt int | PStr string | PBytes bytes

text \<open>\<open>Identity.namespace\<close> is text, an integer or \<open>None\<close>; \<open>Identity.name\<close> is text or bytes.\<close>

datatype nsid = NsStr string | NsInt int

datatype objid = NameStr string | NameBytes bytes

record Identity =
  namespace :: "nsid option"
  type_enum :: StructType
  name :: objid
  issuer :: "bytes option"
  tag :: "bytes option"

text \<open>
  The classes \<open>LiteralARI\<close>, \<open>ReferenceARI\<close>, \<open>AC\<close>, \<open>EXPR\<close> and \<open>TNVC\<close>. The last three
  carry the suffix \<open>obj\<close> here, their names being members of \<open>StructType\<close> too.
  \<open>ReferenceARI.params\<close> is \<open>None\<close> or a list, and the two differ.
\<close>

datatype ari =
    LiteralARI StructType pyval
  | ReferenceARI Identity "ari list option"
  | ACobj "ari list"
  | EXPRobj StructType "ari list"
  | TNVCobj "ari list"

fun is_ReferenceARI :: "ari \<Rightarrow> bool" where
  "is_ReferenceARI (ReferenceARI _ _) = True"
| "is_ReferenceARI _ = False"

section \<open>CBOR items (the cbor2 library)\<close>

text \<open>
  The codec of single CBOR items is the external cbor2 library. It is modelled after
  RFC 8949 on the items the ARI codec exchanges: integers of major types 0 and 1, byte
  strings, text strings, \<open>false\<close>, \<open>true\<close> and \<open>null\<close>, all of definite length. Bignums,
  arrays, maps, tags, floating-point numbers and indefinite lengths are outside the
  model and give \<open>Unmodelled\<close>.
\<close>

fun be_bytes :: "nat \<Rightarrow> nat \<Rightarrow> bytes" where
  "be_bytes 0 n = []"
| "be_bytes (Suc k) n = be_bytes k (n div 256) @ [of_nat (n mod 256)]"

definition be_nat :: "bytes \<Rightarrow> nat" where
  "be_nat bs = foldl (\<lambda>a b. a * 256 + unat b) 0 bs"

definition initial_byte :: "nat \<Rightarrow> nat \<Rightarrow> byte" where
  "initial_byte major sub = of_nat (major * 32 + sub)"

definition encode_length :: "nat \<Rightarrow> nat \<Rightarrow> error + bytes" where
  "encode_length major n =
     (if n < 24 then Inr [initial_byte major n]
      else if n < 2 ^ 8 then Inr (initial_byte major 24 # be_bytes 1 n)
      else if n < 2 ^ 16 then Inr (initial_byte major 25 # be_bytes 2 n)
      else if n < 2 ^ 32 then Inr (initial_byte major 26 # be_bytes 4 n)
      else if n < 2 ^ 64 then Inr (initial_byte major 27 # be_bytes 8 n)
      else Inl Unmodelled)"

text \<open>
  A character is ASCII when its highest bit is clear; \<open>str.encode\<close> maps an ASCII
  character to the octet of its code.
\<close>

definition is_ascii :: "string \<Rightarrow> bool" where
  "is_ascii s = list_all (\<lambda>c. \<not> digit7 c) s"

definition str_encode :: "string \<Rightarrow> bytes" where
  "str_encode s = map of_char s"

definition bytes_decode :: "bytes \<Rightarrow> string" where
  "bytes_decode bs = map (\<lambda>b. char_of (unat b)) bs"

fun cbor_encode :: "pyval \<Rightarrow> error + bytes" where
  "cbor_encode PNone = Inr [0xF6]"
| "cbor_encode (PBool b) = Inr [if b then 0xF5 else 0xF4]"
| "cbor_encode (PInt i) =
     (if 0 \<le> i then encode_length 0 (nat i) else encode_length 1 (nat (- (i + 1))))"
| "cbor_encode (PBytes bs) =
     bindE (encode_length 2 (length bs)) (\<lambda>h. Inr (h @ bs))"
| "cbor_encode (PStr s) =
     (if is_ascii s
      then bindE (encode_length 3 (length s)) (\<lambda>h. Inr (h @ str_encode s))
      else Inl Unmodelled)"

text \<open>
  Decoding reads one item off the front of the buffer and returns it with the rest.
  \<open>decode_length\<close> reads the argument of the initial byte.
\<close>

definition read_n :: "nat \<Rightarrow> bytes \<Rightarrow> error + (bytes \<times> bytes)" where
  "read_n n buf = (if length buf < n then Inl CBORDecodeEOF else Inr (take n buf, drop n buf))"

definition decode_length :: "nat \<Rightarrow> bytes \<Rightarrow> error + (nat \<times> bytes)" where
  "decode_length sub buf =
     (if sub < 24 then Inr (sub, buf)
      else if sub = 24 then bindE (read_n 1 buf) (\<lambda>(h, r). Inr (be_nat h, r))
      else if sub = 25 then bindE (read_n 2 buf) (\<lambda>(h, r). Inr (be_nat h, r))
      else if sub = 26 then bindE (read_n 4 buf) (\<lambda>(h, r). Inr (be_nat h, r))
      else if sub = 27 then bindE (read_n 8 buf) (\<lambda>(h, r). Inr (be_nat h, r))
      else if sub = 31 then Inl Unmodelled
      else Inl CBORDecodeValueError)"

definition cbor_decode :: "bytes \<Rightarrow> error + (pyval \<times> bytes)" where
  "cbor_decode buf =
     (case buf of
        [] \<Rightarrow> Inl CBORDecodeEOF
      | b # rest \<Rightarrow>
          (let major = unat b div 32; sub = unat b mod 32 in
           if major = 0 then
             bindE (decode_length sub rest) (\<lambda>(n, r). Inr (PInt (int n), r))
           else if major = 1 then
             bindE (decode_length sub rest) (\<lambda>(n, r). Inr (PInt (- int n - 1), r))
           else if major = 2 then
             bindE (decode_length sub rest) (\<lambda>(n, r).
               bindE (read_n n r) (\<lambda>(payload, r'). Inr (PBytes payload, r')))
           else if major = 3 then
             bindE (decode_length sub rest) (\<lambda>(n, r).
               bindE (read_n n r) (\<lambda>(payload, r').
                 if list_all (\<lambda>x. x < 128) payload
                 then Inr (PStr (bytes_decode payload), r')
                 else Inl Unmodelled))
           else if major = 7 \<and> sub = 20 then Inr (PBool False, rest)
           else if major = 7 \<and> sub = 21 then Inr (PBool True, rest)
           else if major = 7 \<and> sub = 22 then Inr (PNone, rest)
           else Inl Unmodelled))"

text \<open>\<open>cbor2.dumps\<close> and \<open>cbor2.loads\<close>: one item to and from a whole byte string.\<close>

definition cbor_dumps :: "pyval \<Rightarrow> error + bytes" where
  "cbor_dumps v = cbor_encode v"

definition cbor_loads :: "bytes \<Rightarrow> error + pyval" where
  "cbor_loads buf = bindE (cbor_decode buf) (\<lambda>(v, r). Inr v)"

section \<open>The CBOR codec (ace/ari_cbor.py)\<close>

subsection \<open>Encoder\<close>

text \<open>\<open>struct.pack('!B', n)\<close>: one octet, or \<open>struct.error\<close> outside 0..255.\<close>

definition pack_B :: "int \<Rightarrow> error + bytes" where
  "pack_B n = (if 0 \<le> n \<and> n \<le> 255 then Inr [word_of_int n] else Inl StructError)"

text \<open>\<open>bytes([0x80 | count])\<close>: \<open>ValueError\<close> when the octet does not fit.\<close>

definition ac_head :: "nat \<Rightarrow> error + bytes" where
  "ac_head count =
     (let h = (0x80 :: int) OR int count
      in if h \<le> 255 then Inr [word_of_int h] else Inl ValueError)"

definition HAS_NN :: int where "HAS_NN = 0x80"
definition HAS_PARAMS :: int where "HAS_PARAMS = 0x40"
definition HAS_ISS :: int where "HAS_ISS = 0x20"
definition HAS_TAG :: int where "HAS_TAG = 0x10"

definition TNVC_MIXED :: int where "TNVC_MIXED = 0x8"
definition TNVC_TYPE :: int where "TNVC_TYPE = 0x4"
definition TNVC_NAME :: int where "TNVC_NAME = 0x2"
definition TNVC_VALUE :: int where "TNVC_VALUE = 0x1"

definition nsid_val :: "nsid \<Rightarrow> pyval" where
  "nsid_val ns = (case ns of NsStr s \<Rightarrow> PStr s | NsInt i \<Rightarrow> PInt i)"

text \<open>
  The flag octet of a reference and the items before its parameters. \<open>flags\<close> starts as
  the integer of the type and \<open>flags |= AriFlag.X\<close> makes it an \<open>AriFlag\<close>. The types
  \<open>MDAT\<close> and \<open>UNK\<close> have negative values, and from Python 3.11 on \<open>AriFlag\<close> keeps a
  negative value \<open>v\<close> of at least \<open>-256\<close> as \<open>256 + v\<close> (before 3.11 it stayed negative
  and \<open>struct.pack\<close> refused it). With no flag set the value is still the plain
  integer.
\<close>

definition ref_flags :: "Identity \<Rightarrow> bool \<Rightarrow> int" where
  "ref_flags ident has_params =
     (let f0 = StructType_value (type_enum ident);
          f1 = (if namespace ident \<noteq> None then f0 OR HAS_NN else f0);
          f2 = (if has_params then f1 OR HAS_PARAMS else f1);
          f3 = (if issuer ident \<noteq> None then f2 OR HAS_ISS else f2);
          f4 = (if tag ident \<noteq> None then f3 OR HAS_TAG else f3);
          plain = (namespace ident = None \<and> \<not> has_params \<and> issuer ident = None
                   \<and> tag ident = None)
      in if plain then f4 else if f4 < 0 then 256 + f4 else f4)"

definition encode_name :: "objid \<Rightarrow> error + bytes" where
  "encode_name n =
     (case n of
        NameBytes b \<Rightarrow> cbor_encode (PBytes b)
      | NameStr s \<Rightarrow> if is_ascii s then cbor_encode (PBytes (str_encode s)) else Inl Unmodelled)"

definition encode_ref_front :: "Identity \<Rightarrow> bool \<Rightarrow> error + bytes" where
  "encode_ref_front ident has_params =
     bindE (pack_B (ref_flags ident has_params)) (\<lambda>fl.
     bindE (case namespace ident of None \<Rightarrow> Inr [] | Some ns \<Rightarrow> cbor_encode (nsid_val ns)) (\<lambda>nn.
     bindE (encode_name (name ident)) (\<lambda>nm. Inr (fl @ nn @ nm))))"

definition encode_ref_back :: "Identity \<Rightarrow> error + bytes" where
  "encode_ref_back ident =
     bindE (case issuer ident of None \<Rightarrow> Inr [] | Some b \<Rightarrow> cbor_encode (PBytes b)) (\<lambda>iss.
     bindE (case tag ident of None \<Rightarrow> Inr [] | Some b \<Rightarrow> cbor_encode (PBytes b)) (\<lambda>tg.
     Inr (iss @ tg)))"

text \<open>The type marker \<open>_encode_tnvc\<close> writes for a parameter.\<close>

fun param_type :: "ari \<Rightarrow> StructType" where
  "param_type (ReferenceARI _ _) = ARI"
| "param_type (ACobj _) = AC"
| "param_type (EXPRobj _ _) = EXPR"
| "param_type (TNVCobj _) = TNVC"
| "param_type (LiteralARI t _) = t"

fun pack_types :: "ari list \<Rightarrow> error + bytes" where
  "pack_types [] = Inr []"
| "pack_types (p # ps) =
     bindE (pack_B (StructType_value (param_type p))) (\<lambda>a.
     bindE (pack_types ps) (\<lambda>b. Inr (a @ b)))"

definition tnvc_front :: "ari list \<Rightarrow> error + bytes" where
  "tnvc_front params =
     (let flags = (if params \<noteq> [] then TNVC_TYPE OR TNVC_VALUE else 0) in
      bindE (pack_B flags) (\<lambda>fl.
      bindE (if flags \<noteq> 0 then cbor_encode (PInt (int (length params))) else Inr []) (\<lambda>cnt.
      bindE (pack_types params) (\<lambda>tys. Inr (fl @ cnt @ tys)))))"

definition literal_flags :: "StructType \<Rightarrow> int" where
  "literal_flags t =
     push_bit 4 (StructType_value t - StructType_value BOOL) OR StructType_value LIT"

text \<open>
  \<open>_encode_obj\<close>, \<open>_encode_ref_ari\<close> and \<open>_encode_tnvc\<close>, with their loops: \<open>encode_ref_aris\<close>
  is the loop of an AC or EXPR, which hands every item to \<open>_encode_ref_ari\<close>, and
  \<open>encode_objs\<close> the loop over the values of a TNVC. \<open>_encode_ref_ari\<close> reads
  \<open>obj.ident\<close>, which only a \<open>ReferenceARI\<close> has.
\<close>

fun encode_obj :: "ari \<Rightarrow> bool \<Rightarrow> error + bytes"
  and encode_ref_ari :: "ari \<Rightarrow> error + bytes"
  and encode_ref_aris :: "ari list \<Rightarrow> error + bytes"
  and encode_tnvc :: "ari list \<Rightarrow> error + bytes"
  and encode_objs :: "ari list \<Rightarrow> error + bytes"
where
  "encode_obj (ReferenceARI ident ps) as_ari = encode_ref_ari (ReferenceARI ident ps)"
| "encode_obj (ACobj items) as_ari =
     bindE (ac_head (length items)) (\<lambda>h.
     bindE (encode_ref_aris items) (\<lambda>b. Inr (h @ b)))"
| "encode_obj (EXPRobj t items) as_ari =
     bindE (cbor_encode (PInt (StructType_value t))) (\<lambda>ty.
     bindE (ac_head (length items)) (\<lambda>h.
     bindE (encode_ref_aris items) (\<lambda>b. Inr (ty @ h @ b))))"
| "encode_obj (TNVCobj items) as_ari = encode_tnvc items"
| "encode_obj (LiteralARI t v) as_ari =
     (if t = BSTR then cbor_encode v
      else
        bindE (if as_ari then pack_B (literal_flags t) else Inr []) (\<lambda>fl.
        bindE (cbor_encode v) (\<lambda>b. Inr (fl @ b))))"
| "encode_ref_ari (ReferenceARI ident None) =
     bindE (encode_ref_front ident False) (\<lambda>a.
     bindE (encode_ref_back ident) (\<lambda>c. Inr (a @ c)))"
| "encode_ref_ari (ReferenceARI ident (Some params)) =
     bindE (encode_ref_front ident True) (\<lambda>a.
     bindE (encode_tnvc params) (\<lambda>b.
     bindE (encode_ref_back ident) (\<lambda>c. Inr (a @ b @ c))))"
| "encode_ref_ari (LiteralARI t v) = Inl AttributeError"
| "encode_ref_ari (ACobj items) = Inl AttributeError"
| "encode_ref_ari (EXPRobj t items) = Inl AttributeError"
| "encode_ref_ari (TNVCobj items) = Inl AttributeError"
| "encode_ref_aris [] = Inr []"
| "encode_ref_aris (x # xs) =
     bindE (encode_ref_ari x) (\<lambda>a.
     bindE (encode_ref_aris xs) (\<lambda>b. Inr (a @ b)))"
| "encode_tnvc params =
     bindE (tnvc_front params) (\<lambda>a.
     bindE (encode_objs params) (\<lambda>b. Inr (a @ b)))"
| "encode_objs [] = Inr []"
| "encode_objs (x # xs) =
     bindE (encode_obj x False) (\<lambda>a.
     bindE (encode_objs xs) (\<lambda>b. Inr (a @ b)))"

text \<open>\<open>Encoder.encode\<close>: the bytes written for a top-level object.\<close>

definition encode :: "ari \<Rightarrow> error + bytes" where
  "encode obj = encode_obj obj True"

subsection \<open>Decoder\<close>

text \<open>
  \<open>is_printable\<close> (ace/util.py): non-empty, first octet an ASCII letter, every octet in
  \<open>string.printable\<close> (the octets 32 to 126 and the white space 9 to 13).
\<close>

definition is_alpha :: "byte \<Rightarrow> bool" where
  "is_alpha b = ((0x41 \<le> b \<and> b \<le> 0x5A) \<or> (0x61 \<le> b \<and> b \<le> 0x7A))"

definition in_printable :: "byte \<Rightarrow> bool" where
  "in_printable b = ((0x20 \<le> b \<and> b \<le> 0x7E) \<or> (0x09 \<le> b \<and> b \<le> 0x0D))"

definition is_printable :: "bytes \<Rightarrow> bool" where
  "is_printable nm = (nm \<noteq> [] \<and> is_alpha (hd nm) \<and> list_all in_printable nm)"

text \<open>\<open>cbordec.read(1)\<close>, unpacked as one octet.\<close>

definition read1 :: "bytes \<Rightarrow> error + (byte \<times> bytes)" where
  "read1 buf = (case buf of [] \<Rightarrow> Inl CBORDecodeEOF | b # r \<Rightarrow> Inr (b, r))"

text \<open>An optional item, present when its flag bit is set.\<close>

definition decode_if :: "bool \<Rightarrow> bytes \<Rightarrow> error + (pyval option \<times> bytes)" where
  "decode_if present buf =
     (if present then bindE (cbor_decode buf) (\<lambda>(v, r). Inr (Some v, r)) else Inr (None, buf))"

text \<open>
  The checks of \<open>_decode_ari\<close> on the decoded items. A decoded \<open>null\<close> is Python's
  \<open>None\<close>, the value of an absent item. A namespace that is neither text nor an integer
  lies outside the declared type of \<open>Identity.namespace\<close> and outside the model.
\<close>

definition as_namespace :: "pyval option \<Rightarrow> error + nsid option" where
  "as_namespace v =
     (case v of
        None \<Rightarrow> Inr None
      | Some PNone \<Rightarrow> Inr None
      | Some (PStr s) \<Rightarrow> Inr (Some (NsStr s))
      | Some (PInt i) \<Rightarrow> Inr (Some (NsInt i))
      | Some _ \<Rightarrow> Inl Unmodelled)"

definition as_name :: "pyval \<Rightarrow> error + objid" where
  "as_name v =
     (case v of
        PStr s \<Rightarrow> Inr (NameStr s)
      | PBytes b \<Rightarrow> Inr (if is_printable b then NameStr (bytes_decode b) else NameBytes b)
      | _ \<Rightarrow> Inl ParseError)"

definition as_opt_bytes :: "pyval option \<Rightarrow> error + bytes option" where
  "as_opt_bytes v =
     (case v of
        None \<Rightarrow> Inr None
      | Some PNone \<Rightarrow> Inr None
      | Some (PBytes b) \<Rightarrow> Inr (Some b)
      | Some _ \<Rightarrow> Inl ParseError)"

text \<open>\<open>range(count)\<close> on a decoded count: its length, or \<open>TypeError\<close> for a non-integer.\<close>

definition range_len :: "pyval \<Rightarrow> error + nat" where
  "range_len v =
     (case v of
        PInt i \<Rightarrow> Inr (nat i)
      | PBool b \<Rightarrow> Inr (if b then 1 else 0)
      | _ \<Rightarrow> Inl TypeError)"

text \<open>\<open>StructType(v)\<close> on a decoded item.\<close>

definition StructType_of_pyval :: "pyval \<Rightarrow> error + StructType" where
  "StructType_of_pyval v =
     (case v of
        PInt i \<Rightarrow> StructType_of_value i
      | PBool b \<Rightarrow> StructType_of_value (if b then 1 else 0)
      | _ \<Rightarrow> Inl ValueError)"

text \<open>The loop of \<open>_decode_tnvc\<close> that reads the one-octet type markers.\<close>

fun read_types :: "nat \<Rightarrow> bytes \<Rightarrow> error + (StructType list \<times> bytes)" where
  "read_types 0 buf = Inr ([], buf)"
| "read_types (Suc k) buf =
     bindE (read1 buf) (\<lambda>(b, r).
     bindE (StructType_of_value (uint b)) (\<lambda>t.
     bindE (read_types k r) (\<lambda>(ts, r'). Inr (t # ts, r'))))"

text \<open>
  The literal branch of \<open>_decode_ari\<close>: every exception of the item decoder becomes a
  \<open>ParseError\<close>; the type is \<open>StructType((flags >> 4) + BOOL)\<close>.
\<close>

definition decode_literal :: "byte \<Rightarrow> bytes \<Rightarrow> error + (ari \<times> bytes)" where
  "decode_literal flags buf =
     (case cbor_decode buf of
        Inl Unmodelled \<Rightarrow> Inl Unmodelled
      | Inl _ \<Rightarrow> Inl ParseError
      | Inr (val, r) \<Rightarrow>
          bindE (StructType_of_value (uint (drop_bit 4 flags) + StructType_value BOOL)) (\<lambda>t.
          Inr (LiteralARI t val, r)))"

definition flag_set :: "byte \<Rightarrow> int \<Rightarrow> bool" where
  "flag_set flags m = (uint flags AND m \<noteq> 0)"

text \<open>
  \<open>_decode_ari\<close>, \<open>_decode_tnvc\<close>, \<open>_decode_ac_items\<close> and \<open>_decode_obj\<close>, each returning
  the decoded object and the rest of the buffer. The functions call each other through
  the nesting of the input; the first argument bounds that nesting and decreases where a
  frame's flag octet is read. \<open>decode_aris\<close> and \<open>decode_objs\<close> are the loops over the
  items of an AC and over the values of a TNVC.
\<close>

function (sequential) decode_ari :: "nat \<Rightarrow> bytes \<Rightarrow> error + (ari \<times> bytes)"
  and decode_tnvc :: "nat \<Rightarrow> bytes \<Rightarrow> error + (ari list \<times> bytes)"
  and decode_ac_items :: "nat \<Rightarrow> bytes \<Rightarrow> error + (ari list \<times> bytes)"
  and decode_aris :: "nat \<Rightarrow> nat \<Rightarrow> bytes \<Rightarrow> error + (ari list \<times> bytes)"
  and decode_obj :: "nat \<Rightarrow> StructType \<Rightarrow> bytes \<Rightarrow> error + (ari \<times> bytes)"
  and decode_objs :: "nat \<Rightarrow> StructType list \<Rightarrow> bytes \<Rightarrow> error + (ari list \<times> bytes)"
where
  "decode_ari 0 buf = Inl OutOfFuel"
| "decode_ari (Suc n) buf =
     bindE (read1 buf) (\<lambda>(flags, r0).
     bindE (StructType_of_value (uint (flags AND 0x0F))) (\<lambda>str_type.
       if str_type = LIT then decode_literal flags r0
       else
         bindE (decode_if (flag_set flags HAS_NN) r0) (\<lambda>(nn, r1).
         bindE (cbor_decode r1) (\<lambda>(nm, r2).
         bindE (as_name nm) (\<lambda>nm'.
         bindE (if flag_set flags HAS_PARAMS
                then bindE (decode_tnvc n r2) (\<lambda>(ps, r). Inr (Some ps, r))
                else Inr (None, r2)) (\<lambda>(params, r3).
         bindE (decode_if (flag_set flags HAS_ISS) r3) (\<lambda>(iss, r4).
         bindE (as_opt_bytes iss) (\<lambda>iss'.
         bindE (decode_if (flag_set flags HAS_TAG) r4) (\<lambda>(tg, r5).
         bindE (as_opt_bytes tg) (\<lambda>tg'.
         bindE (as_namespace nn) (\<lambda>nn'.
           Inr (ReferenceARI
                  \<lparr>namespace = nn', type_enum = str_type, name = nm',
                   issuer = iss', tag = tg'\<rparr> params, r5))))))))))))"
| "decode_tnvc 0 buf = Inl OutOfFuel"
| "decode_tnvc (Suc n) buf =
     bindE (read1 buf) (\<lambda>(flags, r0).
     bindE (decode_if (flags \<noteq> 0) r0) (\<lambda>(cnt, r1).
     bindE (if flag_set flags TNVC_TYPE
            then bindE (range_len (case cnt of None \<Rightarrow> PInt 0 | Some c \<Rightarrow> c)) (\<lambda>k.
                 read_types k r1)
            else Inr ([], r1)) (\<lambda>(type_enums, r2).
       if flag_set flags TNVC_NAME then Inl NotImplementedError
       else if flag_set flags TNVC_VALUE then
         bindE (range_len (case cnt of None \<Rightarrow> PInt 0 | Some c \<Rightarrow> c)) (\<lambda>k.
           if flag_set flags TNVC_TYPE then decode_objs n type_enums r2
           else if 0 < k then Inl IndexError
           else Inr ([], r2))
       else Inr ([], r2))))"
| "decode_ac_items n buf =
     bindE (read1 buf) (\<lambda>(item, r0). decode_aris n (unat (item AND 0x1F)) r0)"
| "decode_aris n 0 buf = Inr ([], buf)"
| "decode_aris n (Suc k) buf =
     bindE (decode_ari n buf) (\<lambda>(x, r).
     bindE (decode_aris n k r) (\<lambda>(xs, r'). Inr (x # xs, r')))"
| "decode_obj n t buf =
     (if t = ARI then decode_ari n buf
      else if t = AC then
        bindE (decode_ac_items n buf) (\<lambda>(items, r). Inr (ACobj items, r))
      else if t = EXPR then
        bindE (cbor_decode buf) (\<lambda>(v, r0).
        bindE (StructType_of_pyval v) (\<lambda>rt.
        bindE (decode_ac_items n r0) (\<lambda>(items, r). Inr (EXPRobj rt items, r))))
      else if t = TNVC then
        bindE (decode_tnvc n buf) (\<lambda>(items, r). Inr (ACobj items, r))
      else if t \<in> set LITERAL_TYPES then
        bindE (cbor_decode buf) (\<lambda>(item, r). Inr (LiteralARI t item, r))
      else Inl ValueError)"
| "decode_objs n [] buf = Inr ([], buf)"
| "decode_objs n (t # ts) buf =
     bindE (decode_obj n t buf) (\<lambda>(x, r).
     bindE (decode_objs n ts r) (\<lambda>(xs, r'). Inr (x # xs, r')))"
  by pat_completeness auto
termination
  by (relation "inv_image (less_than <*lex*> less_than <*lex*> less_than)
       (\<lambda>x. case x of
          Inl (Inl (n, buf)) \<Rightarrow> (n, 1::nat, 0::nat)
        | Inl (Inr (Inl (n, buf))) \<Rightarrow> (n, 1, 0)
        | Inl (Inr (Inr (n, buf))) \<Rightarrow> (n, 3, 0)
        | Inr (Inl (n, k, buf)) \<Rightarrow> (n, 2, k)
        | Inr (Inr (Inl (n, t, buf))) \<Rightarrow> (n, 4, 0)
        | Inr (Inr (Inr (n, ts, buf))) \<Rightarrow> (n, 5, length ts))") auto

text \<open>
  \<open>Decoder.decode\<close>: a premature end of the input is reported as \<open>ParseError\<close>; octets
  left over only cause a warning. A frame takes at least one octet, so the nesting never
  exceeds the length of the input.
\<close>

definition decode :: "bytes \<Rightarrow> error + ari" where
  "decode buf =
     (case decode_ari (Suc (length buf)) buf of
        Inl CBORDecodeEOF \<Rightarrow> Inl ParseError
      | Inl e \<Rightarrow> Inl e
      | Inr (res, rest) \<Rightarrow> Inr res)"

section \<open>The text codec (ace/ari_text)\<close>

subsection \<open>Lexer (lexmod.py)\<close>

text \<open>
  The tokens, named after the lexer's rules. The \<open>FLOAT\<close> rule has no token here:
  floating-point values are outside the model.
\<close>

datatype token =
    T_ARI_PREFIX | T_SLASH | T_COMMA | T_LPAREN | T_RPAREN | T_LSQRB | T_RSQRB
  | T_TYPENAME StructType
  | T_TYPEDOT StructType
  | T_BOOL bool
  | T_INT int
  | T_NAME string
  | T_TSTR string
  | T_BSTR bytes

text \<open>The lexer is built with \<open>re.IGNORECASE\<close>: patterns match letters of either case.\<close>

definition upper_case :: string where
  "upper_case = ''ABCDEFGHIJKLMNOPQRSTUVWXYZ''"

definition lower_case :: string where
  "lower_case = ''abcdefghijklmnopqrstuvwxyz''"

definition to_lower :: "char \<Rightarrow> char" where
  "to_lower c = (case map_of (zip upper_case lower_case) c of None \<Rightarrow> c | Some l \<Rightarrow> l)"

definition to_upper :: "char \<Rightarrow> char" where
  "to_upper c = (case map_of (zip lower_case upper_case) c of None \<Rightarrow> c | Some u \<Rightarrow> u)"

fun ci_prefix :: "string \<Rightarrow> string \<Rightarrow> bool" where
  "ci_prefix [] s = True"
| "ci_prefix (p # ps) [] = False"
| "ci_prefix (p # ps) (c # cs) = (if to_lower p = to_lower c then ci_prefix ps cs else False)"

definition is_digit :: "char \<Rightarrow> bool" where
  "is_digit c = (c \<in> set ''0123456789'')"

definition is_bindigit :: "char \<Rightarrow> bool" where
  "is_bindigit c = (c = CHR ''0'' \<or> c = CHR ''1'')"

definition is_letter :: "char \<Rightarrow> bool" where
  "is_letter c = (to_lower c \<in> set lower_case)"

definition is_hexdigit :: "char \<Rightarrow> bool" where
  "is_hexdigit c = (to_lower c \<in> set ''0123456789abcdef'')"

text \<open>
  The class \<open>\s\<close> of a pattern on \<open>str\<close>, among the characters below 256: space, the
  control characters 9 to 13 and 28 to 31, next line (0x85) and no-break space (0xA0).
\<close>

definition is_space :: "char \<Rightarrow> bool" where
  "is_space c =
     (c \<in> set [CHR 0x20, CHR 0x09, CHR 0x0A, CHR 0x0B, CHR 0x0C, CHR 0x0D,
               CHR 0x1C, CHR 0x1D, CHR 0x1E, CHR 0x1F, CHR 0x85, CHR 0xA0])"

text \<open>The value of a digit is its place among the sixteen hexadecimal digits.\<close>

definition digit_val :: "char \<Rightarrow> nat" where
  "digit_val c = length (takeWhile (\<lambda>x. x \<noteq> to_lower c) ''0123456789abcdef'')"

definition base_val :: "nat \<Rightarrow> string \<Rightarrow> nat" where
  "base_val b ds = foldl (\<lambda>a c. a * b + digit_val c) 0 ds"

text \<open>
  Each rule is tried at the front of the remaining text and yields the token's value (or
  the exception its action raises) and the number of characters matched.

  The patterns of \<open>t_TYPENAME\<close> and \<open>t_TYPEDOT\<close> are the member names, as alternatives,
  between parentheses and before a dot. No name holds a dot or a parenthesis and the
  longest has six letters, so the pattern matches exactly when the text up to the first
  closing character, which is among the first seven, is a member name in either case;
  the action looks the upper-cased text up with \<open>StructType[name.upper()]\<close>.
\<close>

type_synonym lexmatch = "((error + token) \<times> nat) option"

definition t_ARI_PREFIX :: "string \<Rightarrow> lexmatch" where
  "t_ARI_PREFIX s = (if ci_prefix ''ari:'' s then Some (Inr T_ARI_PREFIX, 4) else None)"

definition word_before :: "char \<Rightarrow> string \<Rightarrow> string option" where
  "word_before stop s =
     (let w = takeWhile (\<lambda>x. x \<noteq> stop) (take 7 s)
      in if length w < length (take 7 s) then Some w else None)"

definition t_TYPENAME :: "string \<Rightarrow> lexmatch" where
  "t_TYPENAME s =
     (case s of
        [] \<Rightarrow> None
      | c # r \<Rightarrow>
          if c = CHR ''('' then
            (case word_before (CHR '')'') r of
               None \<Rightarrow> None
             | Some w \<Rightarrow>
                 (case StructType_by_name (map to_upper w) of
                    Inl _ \<Rightarrow> None
                  | Inr t \<Rightarrow> Some (Inr (T_TYPENAME t), length w + 2)))
          else None)"

definition t_TYPEDOT :: "string \<Rightarrow> lexmatch" where
  "t_TYPEDOT s =
     (case word_before (CHR ''.'') s of
        None \<Rightarrow> None
      | Some w \<Rightarrow>
          (case StructType_by_name (map to_upper w) of
             Inl _ \<Rightarrow> None
           | Inr t \<Rightarrow> Some (Inr (T_TYPEDOT t), length w + 1)))"

text \<open>
  \<open>t_BOOL\<close> matches \<open>true\<close> and \<open>false\<close> in either case; its value is whether the matched
  text equals \<open>true\<close> exactly.
\<close>

definition t_BOOL :: "string \<Rightarrow> lexmatch" where
  "t_BOOL s =
     (if ci_prefix ''true'' s then Some (Inr (T_BOOL (take 4 s = ''true'')), 4)
      else if ci_prefix ''false'' s then Some (Inr (T_BOOL False), 5)
      else None)"

definition strip_sign :: "string \<Rightarrow> string \<times> string" where
  "strip_sign s =
     (case s of
        [] \<Rightarrow> ([], [])
      | c # r \<Rightarrow> if c = CHR ''+'' \<or> c = CHR ''-'' then ([c], r) else ([], s))"

definition has_exponent :: "string \<Rightarrow> bool" where
  "has_exponent s =
     (case s of
        [] \<Rightarrow> False
      | c # r \<Rightarrow> to_lower c = CHR ''e'' \<and> takeWhile is_digit (snd (strip_sign r)) \<noteq> [])"

text \<open>
  \<open>t_FLOAT\<close> comes before \<open>t_INT\<close>. It matches digits with an exponent, digits around a
  decimal point, \<open>Infinity\<close> and \<open>NaN\<close>. A match without any digit makes \<open>float\<close> raise
  \<open>ValueError\<close>; every other match is a floating-point value, outside the model.
\<close>

definition t_FLOAT :: "string \<Rightarrow> lexmatch" where
  "t_FLOAT s =
     (let r = snd (strip_sign s);
          ds = takeWhile is_digit r;
          r' = dropWhile is_digit r
      in if ds \<noteq> [] \<and> has_exponent r' then Some (Inl Unmodelled, 0)
         else if r' \<noteq> [] \<and> hd r' = CHR ''.'' then
           (if ds = [] \<and> takeWhile is_digit (tl r') = [] then Some (Inl ValueError, 0)
            else Some (Inl Unmodelled, 0))
         else if ci_prefix ''infinity'' r then Some (Inl Unmodelled, 0)
         else if ci_prefix ''nan'' s then Some (Inl Unmodelled, 0)
         else None)"

text \<open>
  \<open>t_INT\<close>: binary, hexadecimal or decimal digits after an optional sign, converted by
  \<open>int(text, 0)\<close>, which refuses a decimal number with a leading zero unless it is zero.
\<close>

definition with_sign :: "string \<Rightarrow> nat \<Rightarrow> int" where
  "with_sign sg n = (if sg = ''-'' then - int n else int n)"

definition t_INT :: "string \<Rightarrow> lexmatch" where
  "t_INT s =
     (let sg = fst (strip_sign s); r = snd (strip_sign s);
          bs = takeWhile is_bindigit (drop 2 r);
          hs = takeWhile is_hexdigit (drop 2 r);
          ds = takeWhile is_digit r
      in if ci_prefix ''0b'' r \<and> bs \<noteq> [] then
           Some (Inr (T_INT (with_sign sg (base_val 2 bs))), length sg + 2 + length bs)
         else if ci_prefix ''0x'' r \<and> hs \<noteq> [] then
           Some (Inr (T_INT (with_sign sg (base_val 16 hs))), length sg + 2 + length hs)
         else if ds \<noteq> [] then
           Some (if 1 < length ds \<and> hd ds = CHR ''0'' \<and> \<not> list_all (\<lambda>c. c = CHR ''0'') ds
                 then Inl ValueError
                 else Inr (T_INT (with_sign sg (base_val 10 ds))),
                 length sg + length ds)
         else None)"

definition t_TSTR :: "string \<Rightarrow> lexmatch" where
  "t_TSTR s =
     (case s of
        [] \<Rightarrow> None
      | c # r \<Rightarrow>
          (let val = takeWhile (\<lambda>x. x \<noteq> CHR 0x22) r
           in if c = CHR 0x22 \<and> length val < length r
              then Some (Inr (T_TSTR val), length val + 2) else None))"

text \<open>
  \<open>t_BSTR\<close>: an optional encoding name (matched in either case, compared exactly) and a
  single-quoted value. \<open>base64.b16decode\<close> raises a \<open>ValueError\<close> on an odd length or a
  character that is no hexadecimal digit; the base32 and base64 decoders are outside the
  model; \<open>h32\<close> raises \<open>NotImplementedError\<close>.
\<close>

fun b16decode :: "string \<Rightarrow> bytes" where
  "b16decode (a # b # r) = of_nat (digit_val (to_lower a) * 16 + digit_val (to_lower b)) # b16decode r"
| "b16decode _ = []"

definition bstr_value :: "string \<Rightarrow> string \<Rightarrow> error + token" where
  "bstr_value enc val =
     (if enc = ''h'' then
        (if even (length val) \<and> list_all is_hexdigit val then Inr (T_BSTR (b16decode val))
         else Inl ValueError)
      else if enc = ''b32'' then Inl Unmodelled
      else if enc = ''h32'' then Inl NotImplementedError
      else if enc = ''b64'' then Inl Unmodelled
      else if is_ascii val then Inr (T_BSTR (str_encode val))
      else Inl ValueError)"

definition quoted_after :: "string \<Rightarrow> string \<Rightarrow> lexmatch" where
  "quoted_after e s =
     (let r = drop (length e) s; val = takeWhile (\<lambda>x. x \<noteq> CHR 0x27) (tl r)
      in if ci_prefix e s \<and> r \<noteq> [] \<and> hd r = CHR 0x27 \<and> length val < length (tl r)
         then Some (bstr_value (take (length e) s) val, length e + length val + 2)
         else None)"

definition t_BSTR :: "string \<Rightarrow> lexmatch" where
  "t_BSTR s =
     (case quoted_after ''h'' s of Some m \<Rightarrow> Some m | None \<Rightarrow>
      case quoted_after ''b32'' s of Some m \<Rightarrow> Some m | None \<Rightarrow>
      case quoted_after ''h32'' s of Some m \<Rightarrow> Some m | None \<Rightarrow>
      case quoted_after ''b64'' s of Some m \<Rightarrow> Some m | None \<Rightarrow>
      quoted_after [] s)"

text \<open>\<open>t_NAME\<close>: a letter and at least one more character outside \<open>/()[],\<close> and white space.\<close>

definition name_char :: "char \<Rightarrow> bool" where
  "name_char c = (c \<notin> set ''/()[],'' \<and> \<not> is_space c)"

definition t_NAME :: "string \<Rightarrow> lexmatch" where
  "t_NAME s =
     (case s of
        [] \<Rightarrow> None
      | c # r \<Rightarrow>
          (let body = takeWhile name_char r
           in if is_letter c \<and> body \<noteq> [] then Some (Inr (T_NAME (c # body)), 1 + length body)
              else None))"

definition t_simple :: "string \<Rightarrow> lexmatch" where
  "t_simple s =
     (case s of
        [] \<Rightarrow> None
      | c # r \<Rightarrow>
          if c = CHR ''('' then Some (Inr T_LPAREN, 1)
          else if c = CHR '')'' then Some (Inr T_RPAREN, 1)
          else if c = CHR ''['' then Some (Inr T_LSQRB, 1)
          else if c = CHR '']'' then Some (Inr T_RSQRB, 1)
          else if c = CHR ''/'' then Some (Inr T_SLASH, 1)
          else if c = CHR '','' then Some (Inr T_COMMA, 1)
          else None)"

text \<open>
  The master pattern: the rules given as functions in the order of their definition, then
  the rules given as strings, longest pattern first.
\<close>

definition match_token :: "string \<Rightarrow> lexmatch" where
  "match_token s =
     (case t_ARI_PREFIX s of Some m \<Rightarrow> Some m | None \<Rightarrow>
      case t_TYPENAME s of Some m \<Rightarrow> Some m | None \<Rightarrow>
      case t_TYPEDOT s of Some m \<Rightarrow> Some m | None \<Rightarrow>
      case t_BOOL s of Some m \<Rightarrow> Some m | None \<Rightarrow>
      case t_FLOAT s of Some m \<Rightarrow> Some m | None \<Rightarrow>
      case t_INT s of Some m \<Rightarrow> Some m | None \<Rightarrow>
      case t_TSTR s of Some m \<Rightarrow> Some m | None \<Rightarrow>
      case t_BSTR s of Some m \<Rightarrow> Some m | None \<Rightarrow>
      case t_NAME s of Some m \<Rightarrow> Some m | None \<Rightarrow>
      t_simple s)"

text \<open>
  The token stream. A character no rule matches is skipped: it is ignored white space,
  or \<open>t_error\<close> logs it and skips it. The parser asks for tokens one at a time, so an
  exception of a rule's action is raised when the parser reaches that token: the
  stream ends with it.
\<close>

type_synonym lexed = "(error + token) list"

fun tokens_of :: "string \<Rightarrow> lexed" where
  "tokens_of [] = []"
| "tokens_of (c # cs) =
     (case match_token (c # cs) of
        None \<Rightarrow> tokens_of cs
      | Some (Inl e, n) \<Rightarrow> [Inl e]
      | Some (Inr t, n) \<Rightarrow> Inr t # tokens_of (drop (n - 1) cs))"

subsection \<open>\<open>LiteralARI.check_type\<close> (ari.py)\<close>

text \<open>
  \<open>value not in (False, True)\<close> compares with \<open>==\<close>, under which the integers 0 and 1
  equal \<open>False\<close> and \<open>True\<close>. \<open>math.isfinite\<close> takes a number (a boolean is one) and
  raises \<open>TypeError\<close> on anything else; it converts an integer to a float, which raises
  \<open>OverflowError\<close> when the integer rounds to \<open>2^1024\<close> or beyond, that is from
  \<open>2^1024 - 2^970\<close> on, and is true of every other integer. The comparisons with the
  limits read a boolean as 0 or 1. Types outside the four branches are not checked.
\<close>

definition in_False_True :: "pyval \<Rightarrow> bool" where
  "in_False_True v =
     (case v of PBool b \<Rightarrow> True | PInt i \<Rightarrow> i = 0 \<or> i = 1 | _ \<Rightarrow> False)"

definition as_number :: "pyval \<Rightarrow> error + int" where
  "as_number v =
     (case v of
        PInt i \<Rightarrow> Inr i
      | PBool b \<Rightarrow> Inr (if b then 1 else 0)
      | _ \<Rightarrow> Inl TypeError)"

definition math_isfinite :: "pyval \<Rightarrow> error + bool" where
  "math_isfinite v =
     bindE (as_number v) (\<lambda>x.
       if 2 ^ 1024 - 2 ^ 970 \<le> \<bar>x\<bar> then Inl OverflowError else Inr True)"

definition check_type :: "StructType \<Rightarrow> pyval \<Rightarrow> error + unit" where
  "check_type t v =
     (if t = BOOL then (if \<not> in_False_True v then Inl ValueError else Inr ())
      else case NUMERIC_LIMITS t of
        Some lim \<Rightarrow>
          bindE (math_isfinite v) (\<lambda>fin.
          bindE (as_number v) (\<lambda>x.
            if fin \<and> (x < fst lim \<or> x > snd lim) then Inl ValueError else Inr ()))
      | None \<Rightarrow>
          if t = STR' then (case v of PStr _ \<Rightarrow> Inr () | _ \<Rightarrow> Inl ValueError)
          else if t = BSTR then (case v of PBytes _ \<Rightarrow> Inr () | _ \<Rightarrow> Inl ValueError)
          else Inr ())"

subsection \<open>Parser (parsemod.py)\<close>

text \<open>
  The grammar's productions, read as the generated parser reads them: one token of
  lookahead, and \<open>p_error\<close> raising \<open>RuntimeError\<close> at the first token that fits no
  production. \<open>next_tok\<close> asks the lexer for the next token.
\<close>

definition next_tok :: "lexed \<Rightarrow> error + (token option \<times> lexed)" where
  "next_tok toks =
     (case toks of
        [] \<Rightarrow> Inr (None, [])
      | Inl e # _ \<Rightarrow> Inl e
      | Inr t # r \<Rightarrow> Inr (Some t, r))"

text \<open>\<open>p_error\<close>.\<close>

definition p_error :: "error + 'a" where
  "p_error = Inl RuntimeError"

text \<open>The productions of \<open>litvalue\<close>.\<close>

definition p_litvalue :: "token \<Rightarrow> ari option" where
  "p_litvalue t =
     (case t of
        T_BOOL b \<Rightarrow> Some (LiteralARI BOOL (PBool b))
      | T_INT i \<Rightarrow> Some (LiteralARI VAST (PInt i))
      | T_TSTR s \<Rightarrow> Some (LiteralARI STR' (PStr s))
      | T_BSTR b \<Rightarrow> Some (LiteralARI BSTR (PBytes b))
      | _ \<Rightarrow> None)"

fun literal_value :: "ari \<Rightarrow> pyval" where
  "literal_value (LiteralARI t v) = v"
| "literal_value _ = PNone"

text \<open>
  \<open>p_literal_with_type\<close>: the literal takes the named type and the value of the
  \<open>litvalue\<close>; any exception of \<open>check_type\<close> is raised again as a \<open>RuntimeError\<close>.
\<close>

definition p_literal_with_type :: "StructType \<Rightarrow> ari \<Rightarrow> error + ari" where
  "p_literal_with_type t lit =
     (case check_type t (literal_value lit) of
        Inl _ \<Rightarrow> Inl RuntimeError
      | Inr _ \<Rightarrow> Inr (LiteralARI t (literal_value lit)))"

definition parse_literal :: "lexed \<Rightarrow> error + (ari \<times> lexed)" where
  "parse_literal toks =
     bindE (next_tok toks) (\<lambda>(t, r).
       case t of
         Some (T_TYPEDOT ty) \<Rightarrow>
           bindE (next_tok r) (\<lambda>(t', r').
             case t' of
               None \<Rightarrow> p_error
             | Some tv \<Rightarrow>
                 (case p_litvalue tv of
                    None \<Rightarrow> p_error
                  | Some lit \<Rightarrow> bindE (p_literal_with_type ty lit) (\<lambda>x. Inr (x, r'))))
       | Some tv \<Rightarrow>
           (case p_litvalue tv of
              None \<Rightarrow> p_error
            | Some lit \<Rightarrow> Inr (lit, r))
       | None \<Rightarrow> p_error)"

text \<open>The productions of \<open>objid\<close> and \<open>ident\<close>.\<close>

definition p_objid :: "token \<Rightarrow> objid option" where
  "p_objid t =
     (case t of
        T_BSTR b \<Rightarrow> Some (if is_printable b then NameStr (bytes_decode b) else NameBytes b)
      | T_NAME s \<Rightarrow> Some (NameStr s)
      | _ \<Rightarrow> None)"

definition parse_typedot_objid :: "nsid option \<Rightarrow> lexed \<Rightarrow> error + (Identity \<times> lexed)" where
  "parse_typedot_objid ns toks =
     bindE (next_tok toks) (\<lambda>(t, r).
       case t of
         Some (T_TYPEDOT ty) \<Rightarrow>
           bindE (next_tok r) (\<lambda>(t', r').
             case t' of
               None \<Rightarrow> p_error
             | Some tn \<Rightarrow>
                 (case p_objid tn of
                    None \<Rightarrow> p_error
                  | Some nm \<Rightarrow>
                      Inr (\<lparr>namespace = ns, type_enum = ty, name = nm,
                            issuer = None, tag = None\<rparr>, r')))
       | _ \<Rightarrow> p_error)"

definition expect :: "token \<Rightarrow> lexed \<Rightarrow> error + lexed" where
  "expect tk toks =
     bindE (next_tok toks) (\<lambda>(t, r). if t = Some tk then Inr r else p_error)"

definition parse_ident :: "lexed \<Rightarrow> error + (Identity \<times> lexed)" where
  "parse_ident toks =
     bindE (expect T_SLASH toks) (\<lambda>r.
     bindE (next_tok r) (\<lambda>(t, r').
       case t of
         Some (T_INT i) \<Rightarrow>
           bindE (expect T_SLASH r') (\<lambda>r''. parse_typedot_objid (Some (NsInt i)) r'')
       | Some (T_NAME s) \<Rightarrow>
           bindE (expect T_SLASH r') (\<lambda>r''. parse_typedot_objid (Some (NsStr s)) r'')
       | Some T_SLASH \<Rightarrow> parse_typedot_objid None r'
       | _ \<Rightarrow> parse_typedot_objid None r))"

text \<open>
  The productions of \<open>ari\<close>, \<open>ssp\<close>, \<open>paramlist\<close>, \<open>paramitem\<close> and \<open>aclist\<close>. They call
  each other through the nesting of the text; the first argument bounds the nesting and
  the length of the lists, and decreases with every \<open>ari\<close> and every list item.
\<close>

function (sequential) parse_ari :: "nat \<Rightarrow> lexed \<Rightarrow> error + (ari \<times> lexed)"
  and parse_ssp :: "nat \<Rightarrow> lexed \<Rightarrow> error + (ari \<times> lexed)"
  and parse_paramlist :: "nat \<Rightarrow> lexed \<Rightarrow> error + (ari list \<times> lexed)"
  and parse_paramitem :: "nat \<Rightarrow> lexed \<Rightarrow> error + (ari \<times> lexed)"
  and parse_aclist :: "nat \<Rightarrow> lexed \<Rightarrow> error + (ari list \<times> lexed)"
where
  "parse_ari 0 toks = Inl OutOfFuel"
| "parse_ari (Suc n) toks =
     bindE (next_tok toks) (\<lambda>(t, r).
       if t = Some T_ARI_PREFIX then parse_ssp n r else parse_literal toks)"
| "parse_ssp n toks =
     bindE (next_tok toks) (\<lambda>(t, r).
       if t = Some T_SLASH then
         bindE (parse_ident toks) (\<lambda>(ident, r1).
         bindE (next_tok r1) (\<lambda>(t1, r2).
           if t1 = Some T_LPAREN then
             bindE (next_tok r2) (\<lambda>(t2, r3).
               if t2 = Some T_RPAREN then Inr (ReferenceARI ident (Some []), r3)
               else
                 bindE (parse_paramlist n r2) (\<lambda>(ps, r4).
                 bindE (expect T_RPAREN r4) (\<lambda>r5. Inr (ReferenceARI ident (Some ps), r5))))
           else Inr (ReferenceARI ident None, r1)))
       else parse_literal toks)"
| "parse_paramlist 0 toks = Inl OutOfFuel"
| "parse_paramlist (Suc n) toks =
     bindE (parse_paramitem n toks) (\<lambda>(x, r).
     bindE (next_tok r) (\<lambda>(t, r').
       if t = Some T_COMMA
       then bindE (parse_paramlist n r') (\<lambda>(xs, r''). Inr (x # xs, r''))
       else Inr ([x], r)))"
| "parse_paramitem n toks =
     bindE (next_tok toks) (\<lambda>(t, r).
       case t of
         Some T_LSQRB \<Rightarrow>
           bindE (next_tok r) (\<lambda>(t1, r1).
             if t1 = Some T_RSQRB then Inr (ACobj [], r1)
             else
               bindE (parse_aclist n r) (\<lambda>(items, r2).
               bindE (expect T_RSQRB r2) (\<lambda>r3. Inr (ACobj items, r3))))
       | Some (T_TYPENAME ty) \<Rightarrow>
           bindE (expect T_LSQRB r) (\<lambda>r1.
           bindE (parse_aclist n r1) (\<lambda>(items, r2).
           bindE (expect T_RSQRB r2) (\<lambda>r3. Inr (EXPRobj ty items, r3))))
       | _ \<Rightarrow> parse_ari n toks)"
| "parse_aclist 0 toks = Inl OutOfFuel"
| "parse_aclist (Suc n) toks =
     bindE (parse_ari n toks) (\<lambda>(x, r).
     bindE (next_tok r) (\<lambda>(t, r').
       if t = Some T_COMMA
       then bindE (parse_aclist n r') (\<lambda>(xs, r''). Inr (x # xs, r''))
       else Inr ([x], r)))"
  by pat_completeness auto
termination
  by (relation "inv_image (less_than <*lex*> less_than)
       (\<lambda>x. case x of
          Inl (Inl (n, toks)) \<Rightarrow> (n, 0::nat)
        | Inl (Inr (n, toks)) \<Rightarrow> (n, 4)
        | Inr (Inl (n, toks)) \<Rightarrow> (n, 3)
        | Inr (Inr (Inl (n, toks))) \<Rightarrow> (n, 2)
        | Inr (Inr (Inr (n, toks))) \<Rightarrow> (n, 1))") auto

text \<open>
  \<open>Decoder.decode\<close>: the whole text is one \<open>ari\<close>. A \<open>RuntimeError\<close> of the parser (and
  its subclass \<open>NotImplementedError\<close>) is reported as \<open>ParseError\<close>; other exceptions of
  the lexer's actions pass through. The text has at least one token for every \<open>ari\<close>
  and list item, so the bound is never reached.
\<close>

definition text_errors :: "error \<Rightarrow> error" where
  "text_errors e = (if e = RuntimeError \<or> e = NotImplementedError then ParseError else e)"

definition parse :: "lexed \<Rightarrow> error + ari" where
  "parse toks =
     bindE (parse_ari (Suc (length toks)) toks) (\<lambda>(res, r).
     bindE (next_tok r) (\<lambda>(t, r'). if t = None then Inr res else p_error))"

definition decode_tokens :: "lexed \<Rightarrow> error + ari" where
  "decode_tokens toks =
     (case parse toks of
        Inl e \<Rightarrow> Inl (text_errors e)
      | Inr res \<Rightarrow> Inr res)"

definition decode_text :: "string \<Rightarrow> error + ari" where
  "decode_text txt = decode_tokens (tokens_of txt)"

text \<open>The tokens of the three productions of \<open>ident\<close>, for a namespace and an \<open>objid\<close> token.\<close>

definition ident_tokens :: "nsid option \<Rightarrow> StructType \<Rightarrow> token \<Rightarrow> lexed" where
  "ident_tokens nspace t nm_tok =
     Inr T_SLASH
     # (case nspace of
          None \<Rightarrow> []
        | Some (NsInt i) \<Rightarrow> [Inr (T_INT i), Inr T_SLASH]
        | Some (NsStr s) \<Rightarrow> [Inr (T_NAME s), Inr T_SLASH])
     @ [Inr (T_TYPEDOT t), Inr nm_tok]"

subsection \<open>Encoder (ari_text/__init__.py, cborutil.py)\<close>

text \<open>Decimal and hexadecimal digits of Python's \<open>str\<close> of an integer and \<open>bytes.hex\<close>.\<close>

definition digit_char :: "nat \<Rightarrow> char" where
  "digit_char d = ''0123456789abcdef'' ! d"

fun dec_digits :: "nat \<Rightarrow> string" where
  "dec_digits n =
     (if n < 10 then [digit_char n] else dec_digits (n div 10) @ [digit_char (n mod 10)])"

declare dec_digits.simps [simp del]

definition str_int :: "int \<Rightarrow> string" where
  "str_int i = (if i < 0 then CHR ''-'' # dec_digits (nat (- i)) else dec_digits (nat i))"

definition hex_bytes :: "bytes \<Rightarrow> string" where
  "hex_bytes bs =
     concat (map (\<lambda>b. [digit_char (unat b div 16), digit_char (unat b mod 16)]) bs)"

text \<open>\<open>to_diag\<close>: CBOR diagnostic notation of a value.\<close>

definition to_diag :: "pyval \<Rightarrow> string" where
  "to_diag v =
     (case v of
        PNone \<Rightarrow> ''null''
      | PBool b \<Rightarrow> (if b then ''true'' else ''false'')
      | PInt i \<Rightarrow> str_int i
      | PStr s \<Rightarrow> [CHR 0x22] @ s @ [CHR 0x22]
      | PBytes b \<Rightarrow> ''h'' @ [CHR 0x27] @ hex_bytes b @ [CHR 0x27])"

text \<open>
  The text of a reference before its parameters. A namespace or name that is empty (or
  the integer 0) is false in Python and left out.
\<close>

definition truthy_ns :: "nsid option \<Rightarrow> bool" where
  "truthy_ns ns =
     (case ns of None \<Rightarrow> False | Some (NsStr s) \<Rightarrow> s \<noteq> [] | Some (NsInt i) \<Rightarrow> i \<noteq> 0)"

definition str_ns :: "nsid option \<Rightarrow> string" where
  "str_ns ns = (case ns of None \<Rightarrow> ''None'' | Some (NsStr s) \<Rightarrow> s | Some (NsInt i) \<Rightarrow> str_int i)"

definition ident_text :: "Identity \<Rightarrow> string" where
  "ident_text ident =
     ''ari:''
     @ (if truthy_ns (namespace ident) then ''/'' @ str_ns (namespace ident) else [])
     @ (case name ident of
          NameStr s \<Rightarrow>
            if s \<noteq> [] then ''/'' @ StructType_name (type_enum ident) @ ''.'' @ s else []
        | NameBytes b \<Rightarrow>
            if b \<noteq> [] then ''/'' @ StructType_name (type_enum ident) @ ''.'' @ to_diag (PBytes b)
            else [])"

text \<open>
  \<open>Encoder.encode\<close> and \<open>_encode_list\<close>; \<open>encode_items\<close> is the loop of the latter, with
  its flag \<open>first\<close>. A TNVC has no text form: \<open>TypeError\<close>.
\<close>

fun text_encode :: "ari \<Rightarrow> error + string"
  and encode_list :: "ari list \<Rightarrow> string \<Rightarrow> string \<Rightarrow> error + string"
  and encode_items :: "bool \<Rightarrow> ari list \<Rightarrow> error + string"
where
  "text_encode (ACobj items) = encode_list items ''['' '']''"
| "text_encode (EXPRobj t items) =
     bindE (encode_list items ''['' '']'') (\<lambda>l. Inr (''('' @ StructType_name t @ '')'' @ l))"
| "text_encode (LiteralARI t v) =
     Inr ((if t \<in> set LITERAL_LABEL_TYPES then StructType_name t @ ''.'' else []) @ to_diag v)"
| "text_encode (ReferenceARI ident None) = Inr (ident_text ident)"
| "text_encode (ReferenceARI ident (Some params)) =
     bindE (encode_list params ''('' '')'') (\<lambda>l. Inr (ident_text ident @ l))"
| "text_encode (TNVCobj items) = Inl TypeError"
| "encode_list items begin_s end_s =
     bindE (encode_items True items) (\<lambda>b. Inr (begin_s @ b @ end_s))"
| "encode_items first [] = Inr []"
| "encode_items first (part # parts) =
     bindE (text_encode part) (\<lambda>a.
     bindE (encode_items False parts) (\<lambda>b.
       Inr ((if first then [] else '','') @ a @ b)))"

section \<open>The ADM catalog (ace/models.py, ace/adm_set.py)\<close>

text \<open>
  The ORM classes, with the columns the nickname converter and the constraints read. A
  nullable column is an option. The columns of \<open>AdmObjMixin\<close> carry the prefix \<open>obj\<close>
  here (\<open>AdmFile\<close> has \<open>norm_name\<close> and \<open>enum\<close> too); a class with the mixin extends its
  record. A \<open>TypeNameList\<close> and an \<open>AC\<close> are the lists of their items.
\<close>

record TypeNameItem =
  item_type :: "string option"
  item_name :: string

record orm_ARI =
  ari_ns :: "string option"
  ari_nm :: "string option"
  ari_ap :: "(string option \<times> string option) list"

record Expr =
  expr_type :: "string option"
  postfix :: "orm_ARI list option"

record AdmObjMixin =
  obj_name :: string
  obj_norm_name :: "string option"
  obj_enum :: "int option"

record Mdat = AdmObjMixin +
  mdat_type :: "string option"
  mdat_value :: string

record Edd = AdmObjMixin +
  edd_type :: string
  edd_parmspec :: "TypeNameItem list option"

record Const = AdmObjMixin +
  const_type :: "string option"
  const_value :: "string option"

record Ctrl = AdmObjMixin +
  ctrl_parmspec :: "TypeNameItem list option"

record Mac = AdmObjMixin +
  mac_parmspec :: "TypeNameItem list option"
  action :: "orm_ARI list"

record Oper = AdmObjMixin +
  result_type :: "string option"
  in_type :: "string option list"

record Rptt = AdmObjMixin +
  rptt_parmspec :: "TypeNameItem list option"
  rptt_definition :: "orm_ARI list"

record Tblt = AdmObjMixin +
  columns :: "TypeNameItem list"

record Var = AdmObjMixin +
  var_type :: string
  initializer :: "Expr option"

record AdmFile =
  abs_file_path :: "string option"
  norm_name :: "string option"
  norm_namespace :: "string option"
  enum :: "int option"
  mdat :: "Mdat list"
  const :: "Const list"
  ctrl :: "Ctrl list"
  edd :: "Edd list"
  mac :: "Mac list"
  oper :: "Oper list"
  rptt :: "Rptt list"
  tblt :: "Tblt list"
  var :: "Var list"

text \<open>
  The database session: the \<open>AdmFile\<close> rows, each with its children, and the \<open>Mdat\<close> rows
  that belong to no \<open>AdmFile\<close>.
\<close>

record Session =
  adm_rows :: "AdmFile list"
  loose_mdat :: "Mdat list"

text \<open>\<open>Query.one_or_none\<close>.\<close>

definition one_or_none :: "'a list \<Rightarrow> error + 'a option" where
  "one_or_none rows =
     (case rows of
        [] \<Rightarrow> Inr None
      | [x] \<Rightarrow> Inr (Some x)
      | _ \<Rightarrow> Inl MultipleResultsFound)"

text \<open>\<open>str.casefold\<close>, on ASCII text.\<close>

definition casefold :: "string \<Rightarrow> string" where
  "casefold s = map to_lower s"

definition get_by_norm_name :: "Session \<Rightarrow> string \<Rightarrow> error + AdmFile" where
  "get_by_norm_name db nm =
     bindE (one_or_none (filter (\<lambda>a. norm_name a = Some (casefold nm)) (adm_rows db))) (\<lambda>adm.
       case adm of None \<Rightarrow> Inl KeyError | Some a \<Rightarrow> Inr a)"

definition get_by_enum :: "Session \<Rightarrow> int \<Rightarrow> error + AdmFile" where
  "get_by_enum db e =
     bindE (one_or_none (filter (\<lambda>a. enum a = Some e) (adm_rows db))) (\<lambda>adm.
       case adm of None \<Rightarrow> Inl KeyError | Some a \<Rightarrow> Inr a)"

text \<open>
  What the nickname converter reads of a child object: the mixin's \<open>norm_name\<close> and
  \<open>enum\<close>, and the \<open>parmspec\<close> of a class that has the attribute, when it is not \<open>None\<close>.
\<close>

record Child =
  child_norm_name :: "string option"
  child_enum :: "int option"
  child_parmspec :: "TypeNameItem list option"

definition as_child :: "'a AdmObjMixin_scheme \<Rightarrow> TypeNameItem list option \<Rightarrow> Child" where
  "as_child obj spec =
     \<lparr>child_norm_name = obj_norm_name obj, child_enum = obj_enum obj, child_parmspec = spec\<rparr>"

text \<open>
  \<open>ORM_TYPE\<close> (nickname.py): the class of the children that a reference type names, given
  here by the rows of that class under an \<open>AdmFile\<close>. SBR and TBR have no entry.
\<close>

definition ORM_TYPE :: "StructType \<Rightarrow> (AdmFile \<Rightarrow> Child list) option" where
  "ORM_TYPE t =
     (if t = MDAT then Some (\<lambda>a. map (\<lambda>x. as_child x None) (mdat a))
      else if t = CONST' then Some (\<lambda>a. map (\<lambda>x. as_child x None) (const a))
      else if t = CTRL then Some (\<lambda>a. map (\<lambda>x. as_child x (ctrl_parmspec x)) (ctrl a))
      else if t = EDD then Some (\<lambda>a. map (\<lambda>x. as_child x (edd_parmspec x)) (edd a))
      else if t = MAC then Some (\<lambda>a. map (\<lambda>x. as_child x (mac_parmspec x)) (mac a))
      else if t = OPER then Some (\<lambda>a. map (\<lambda>x. as_child x None) (oper a))
      else if t = RPTT then Some (\<lambda>a. map (\<lambda>x. as_child x (rptt_parmspec x)) (rptt a))
      else if t = TBLT then Some (\<lambda>a. map (\<lambda>x. as_child x None) (tblt a))
      else if t = VAR then Some (\<lambda>a. map (\<lambda>x. as_child x None) (var a))
      else None)"

text \<open>
  \<open>AdmSet.get_child\<close>: the rows of the class under the given \<open>AdmFile\<close>, filtered by the
  keys that are given.
\<close>

definition get_child ::
  "AdmFile \<Rightarrow> (AdmFile \<Rightarrow> Child list) \<Rightarrow> string option \<Rightarrow> int option \<Rightarrow> error + Child option"
where
  "get_child adm cls nm e =
     (let q0 = cls adm;
          q1 = (case nm of None \<Rightarrow> q0
                | Some n \<Rightarrow> filter (\<lambda>c. child_norm_name c = Some (casefold n)) q0);
          q2 = (case e of None \<Rightarrow> q1
                | Some k \<Rightarrow> filter (\<lambda>c. child_enum c = Some k) q1)
      in one_or_none q2)"

section \<open>The nickname converter (ace/nickname.py)\<close>

text \<open>\<open>AdmObjType\<close>, looked up by member name and by value.\<close>

definition AdmObjType_table :: "(string \<times> int) list" where
  "AdmObjType_table =
     [(''CONST'', 0), (''CTRL'', 1), (''EDD'', 2), (''MAC'', 3), (''OPER'', 4), (''RPTT'', 5),
      (''SBR'', 6), (''TBLT'', 7), (''TBR'', 8), (''VAR'', 9), (''MDAT'', 10)]"

definition AdmObjType_by_name :: "string \<Rightarrow> error + int" where
  "AdmObjType_by_name s =
     (case map_of AdmObjType_table s of None \<Rightarrow> Inl KeyError | Some v \<Rightarrow> Inr v)"

definition AdmObjType_of_value :: "int \<Rightarrow> error + string" where
  "AdmObjType_of_value v =
     (case find (\<lambda>(n, k). k = v) AdmObjType_table of
        None \<Rightarrow> Inl ValueError
      | Some (n, k) \<Rightarrow> Inr n)"

datatype Mode = TO_NN | FROM_NN

text \<open>\<open>str.split(sep)\<close> for a one-character separator.\<close>

fun split_on :: "char \<Rightarrow> string \<Rightarrow> string list" where
  "split_on d [] = [[]]"
| "split_on d (c # cs) =
     (if c = d then [] # split_on d cs
      else case split_on d cs of
             p # ps \<Rightarrow> (c # p) # ps
           | [] \<Rightarrow> [[c]])"

text \<open>
  The converter changes a reference in place. A step returns the reference as it stands
  when the step ends, with the exception that ended it, if any: what was assigned
  before an exception stays assigned.
\<close>

type_synonym 'a outcome = "'a \<times> error option"

fun ari_items :: "ari \<Rightarrow> ari list option" where
  "ari_items (ACobj items) = Some items"
| "ari_items (EXPRobj t items) = Some items"
| "ari_items (TNVCobj items) = Some items"
| "ari_items _ = None"

text \<open>
  The loop over \<open>obj.parmspec.items\<close>: a parameter whose declared type is \<open>TNVC\<close> is
  replaced by a TNVC of the same items.
\<close>

fun rewrap :: "nat \<Rightarrow> TypeNameItem list \<Rightarrow> ari list option \<Rightarrow> ari list option outcome" where
  "rewrap ix [] params = (params, None)"
| "rewrap ix (spec # specs) params =
     (if item_type spec = Some ''TNVC'' then
        (case params of
           None \<Rightarrow> (params, Some TypeError)
         | Some ps \<Rightarrow>
             if ix < length ps then
               (case ari_items (ps ! ix) of
                  None \<Rightarrow> (params, Some AttributeError)
                | Some items \<Rightarrow> rewrap (Suc ix) specs (Some (ps[ix := TNVCobj items])))
             else (params, Some IndexError))
      else rewrap (Suc ix) specs params)"

text \<open>
  The \<open>TO_NN\<close> branch of \<open>_convert_ari\<close>, for a namespace that is text. \<open>nn_lookup\<close> is
  its first part, the look-ups in the catalog, in the order the code makes them:
  \<open>split(':')[1]\<close>, \<open>get_by_norm_name\<close>, \<open>AdmObjType[obj_type.name]\<close>, \<open>ORM_TYPE[obj_type]\<close>
  and \<open>get_child\<close>, which case-folds the name (an attribute that bytes do not have).
\<close>

definition nn_lookup ::
  "Session \<Rightarrow> string \<Rightarrow> Identity \<Rightarrow> error + (AdmFile \<times> int \<times> Child option)"
where
  "nn_lookup adms nspace ident =
     (case split_on (CHR '':'') nspace of
        _ # adm_name # _ \<Rightarrow>
          bindE (get_by_norm_name adms adm_name) (\<lambda>adm.
          bindE (AdmObjType_by_name (StructType_name (type_enum ident))) (\<lambda>nn_type_enum.
          bindE (case ORM_TYPE (type_enum ident) of
                   None \<Rightarrow> Inl KeyError | Some cls \<Rightarrow> Inr cls) (\<lambda>cls.
          bindE (case name ident of
                   NameBytes _ \<Rightarrow> Inl AttributeError | NameStr n \<Rightarrow> Inr n) (\<lambda>obj_name.
          bindE (get_child adm cls (Some obj_name) None) (\<lambda>obj.
            Inr (adm, nn_type_enum, obj))))))
      | _ \<Rightarrow> Inl IndexError)"

text \<open>
  The assignments of the branch: the namespace, then the name, then the parameters that
  the parmspec declares as TNVC.
\<close>

definition nn_assign ::
  "int \<Rightarrow> int \<Rightarrow> Child \<Rightarrow> int \<Rightarrow> Identity \<Rightarrow> ari list option
     \<Rightarrow> (Identity \<times> ari list option) outcome"
where
  "nn_assign adm_enum nn_type_enum ob ob_enum ident params =
     (let ident1 = ident\<lparr>namespace := Some (NsInt (adm_enum * 20 + nn_type_enum))\<rparr> in
      case cbor_dumps (PInt ob_enum) of
        Inl e \<Rightarrow> ((ident1, params), Some e)
      | Inr b \<Rightarrow>
          (let ident2 = ident1\<lparr>name := NameBytes b\<rparr> in
           case child_parmspec ob of
             None \<Rightarrow> ((ident2, params), None)
           | Some specs \<Rightarrow>
               (case rewrap 0 specs params of (params', err) \<Rightarrow> ((ident2, params'), err))))"

definition to_nn ::
  "Session \<Rightarrow> bool \<Rightarrow> string \<Rightarrow> Identity \<Rightarrow> ari list option
     \<Rightarrow> (Identity \<times> ari list option) outcome"
where
  "to_nn adms must nspace ident params =
     (let missing = ((ident, params), if must then Some RuntimeError else None) in
      case nn_lookup adms nspace ident of
        Inl e \<Rightarrow> ((ident, params), Some e)
      | Inr (adm, nn_type_enum, obj) \<Rightarrow>
          (case enum adm of
             None \<Rightarrow> missing
           | Some adm_enum \<Rightarrow>
               (case obj of
                  None \<Rightarrow> missing
                | Some ob \<Rightarrow>
                    (case child_enum ob of
                       None \<Rightarrow> missing
                     | Some ob_enum \<Rightarrow>
                         nn_assign adm_enum nn_type_enum ob ob_enum ident params))))"

text \<open>
  The \<open>FROM_NN\<close> branch of \<open>_convert_ari\<close>, for a namespace that is an integer:
  the look-ups, then the two assignments. A child without \<open>norm_name\<close> would make the
  name \<open>None\<close>, which the model of \<open>Identity.name\<close> does not hold.
\<close>

definition nn_resolve ::
  "Session \<Rightarrow> int \<Rightarrow> Identity \<Rightarrow> error + (AdmFile \<times> Child option)"
where
  "nn_resolve adms nspace ident =
     bindE (AdmObjType_of_value (nspace mod 20)) (\<lambda>adm_type_name.
     bindE (case name ident of
              NameStr _ \<Rightarrow> Inl TypeError | NameBytes b \<Rightarrow> cbor_loads b) (\<lambda>v.
     bindE (case as_number v of Inl _ \<Rightarrow> Inl ValueError | Inr k \<Rightarrow> Inr k) (\<lambda>ob_enum.
     bindE (get_by_enum adms (nspace div 20)) (\<lambda>adm.
     bindE (case ORM_TYPE (type_enum ident) of
              None \<Rightarrow> Inl KeyError | Some cls \<Rightarrow> Inr cls) (\<lambda>cls.
     bindE (get_child adm cls None (Some ob_enum)) (\<lambda>obj. Inr (adm, obj)))))))"

definition from_nn ::
  "Session \<Rightarrow> int \<Rightarrow> Identity \<Rightarrow> ari list option \<Rightarrow> (Identity \<times> ari list option) outcome"
where
  "from_nn adms nspace ident params =
     (case nn_resolve adms nspace ident of
        Inl e \<Rightarrow> ((ident, params), Some e)
      | Inr (adm, obj) \<Rightarrow>
          (let ident1 = ident\<lparr>namespace :=
                 Some (NsStr (''IANA:'' @ (case norm_name adm of None \<Rightarrow> ''None'' | Some n \<Rightarrow> n)))\<rparr>
           in case obj of
                None \<Rightarrow> ((ident1, params), Some AttributeError)
              | Some ob \<Rightarrow>
                  (case child_norm_name ob of
                     None \<Rightarrow> ((ident1, params), Some Unmodelled)
                   | Some n \<Rightarrow> ((ident1\<lparr>name := NameStr n\<rparr>, params), None))))"

text \<open>\<open>Converter._convert_ari\<close>: a branch is taken by the mode and the kind of namespace.\<close>

definition convert_ari ::
  "Mode \<Rightarrow> Session \<Rightarrow> bool \<Rightarrow> Identity \<Rightarrow> ari list option
     \<Rightarrow> (Identity \<times> ari list option) outcome"
where
  "convert_ari mode adms must ident params =
     (case (mode, namespace ident) of
        (TO_NN, Some (NsStr s)) \<Rightarrow> to_nn adms must s ident params
      | (FROM_NN, Some (NsInt i)) \<Rightarrow> from_nn adms i ident params
      | _ \<Rightarrow> ((ident, params), None))"

lemma size_list_update_le:
  "i < length xs \<Longrightarrow> f y \<le> f (xs ! i) \<Longrightarrow> size_list f (xs[i := y]) \<le> size_list f xs"
proof (induction xs arbitrary: i)
  case Nil
  then show ?case by simp
next
  case (Cons x xs)
  then show ?case by (cases i) auto
qed

lemma ari_items_size: "ari_items x = Some items \<Longrightarrow> size (TNVCobj items) \<le> size x"
  by (cases x) auto

lemma rewrap_size:
  "rewrap ix specs params = (params', err) \<Longrightarrow>
     size_option (size_list size) params' \<le> size_option (size_list size) params"
proof (induction specs arbitrary: ix params)
  case Nil
  then show ?case by simp
next
  case (Cons spec specs)
  show ?case
  proof (cases "item_type spec = Some ''TNVC''")
    case False
    with Cons.prems have "rewrap (Suc ix) specs params = (params', err)" by simp
    then show ?thesis by (rule Cons.IH)
  next
    case True
    show ?thesis
    proof (cases params)
      case None
      with True Cons.prems show ?thesis by simp
    next
      case (Some ps)
      show ?thesis
      proof (cases "ix < length ps")
        case False
        with True Some Cons.prems show ?thesis by simp
      next
        case lt: True
        show ?thesis
        proof (cases "ari_items (ps ! ix)")
          case None
          with True Some lt Cons.prems show ?thesis by simp
        next
          case (Some items)
          with True \<open>params = Some ps\<close> lt Cons.prems
          have "rewrap (Suc ix) specs (Some (ps[ix := TNVCobj items])) = (params', err)"
            by simp
          then have "size_option (size_list size) params'
                       \<le> size_option (size_list size) (Some (ps[ix := TNVCobj items]))"
            by (rule Cons.IH)
          also have "\<dots> \<le> size_option (size_list size) (Some ps)"
            using size_list_update_le [OF lt ari_items_size [OF Some]] by simp
          finally show ?thesis using \<open>params = Some ps\<close> by simp
        qed
      qed
    qed
  qed
qed

lemma nn_assign_size:
  "nn_assign ae nn ob oe ident params = ((ident', params'), err) \<Longrightarrow>
     size_option (size_list size) params' \<le> size_option (size_list size) params"
  by (auto simp: nn_assign_def Let_def split: sum.splits option.splits prod.splits
      dest: rewrap_size)

lemma to_nn_size:
  "to_nn adms must s ident params = ((ident', params'), err) \<Longrightarrow>
     size_option (size_list size) params' \<le> size_option (size_list size) params"
  by (auto simp: to_nn_def Let_def split: sum.splits option.splits prod.splits
      dest: nn_assign_size)

lemma from_nn_params:
  "from_nn adms i ident params = ((ident', params'), err) \<Longrightarrow> params' = params"
  by (auto simp: from_nn_def Let_def split: sum.splits option.splits prod.splits)

lemma convert_ari_size:
  "convert_ari mode adms must ident params = ((ident', params'), err) \<Longrightarrow>
     size_option (size_list size) params' \<le> size_option (size_list size) params"
  by (auto simp: convert_ari_def split: Mode.splits option.splits nsid.splits
      dest: to_nn_size from_nn_params)

text \<open>
  \<open>Converter.__call__\<close>: a reference is converted, then its parameters when the list is
  not empty; the items of an AC, EXPR or TNVC are converted in turn. \<open>convert_items\<close>
  is the loop over a list: an exception leaves the remaining items as they were.
  The conversion of a reference never makes its parameters larger, which is why the
  traversal ends.
\<close>

function (sequential) convert :: "Mode \<Rightarrow> Session \<Rightarrow> bool \<Rightarrow> ari \<Rightarrow> ari outcome"
  and convert_items :: "Mode \<Rightarrow> Session \<Rightarrow> bool \<Rightarrow> ari list \<Rightarrow> ari list outcome"
where
  "convert mode adms must (LiteralARI t v) = (LiteralARI t v, None)"
| "convert mode adms must (ACobj items) =
     (case convert_items mode adms must items of (items', err) \<Rightarrow> (ACobj items', err))"
| "convert mode adms must (EXPRobj t items) =
     (case convert_items mode adms must items of (items', err) \<Rightarrow> (EXPRobj t items', err))"
| "convert mode adms must (TNVCobj items) =
     (case convert_items mode adms must items of (items', err) \<Rightarrow> (TNVCobj items', err))"
| "convert mode adms must (ReferenceARI ident params) =
     (case convert_ari mode adms must ident params of
        ((ident', params'), Some e) \<Rightarrow> (ReferenceARI ident' params', Some e)
      | ((ident', None), None) \<Rightarrow> (ReferenceARI ident' None, None)
      | ((ident', Some ps), None) \<Rightarrow>
          (case convert_items mode adms must ps of
             (ps', err) \<Rightarrow> (ReferenceARI ident' (Some ps'), err)))"
| "convert_items mode adms must [] = ([], None)"
| "convert_items mode adms must (x # xs) =
     (case convert mode adms must x of
        (x', Some e) \<Rightarrow> (x' # xs, Some e)
      | (x', None) \<Rightarrow>
          (case convert_items mode adms must xs of (xs', err) \<Rightarrow> (x' # xs', err)))"

  by pat_completeness auto
termination
  by (relation "measure (\<lambda>x. case x of
          Inl (mode, adms, must, t) \<Rightarrow> size t
        | Inr (mode, adms, must, ts) \<Rightarrow> size_list size ts)")
     (auto dest: convert_ari_size convert_ari_size [OF sym])

text \<open>
  Trees in one form. \<open>all_refs P\<close> holds of an object when \<open>P\<close> holds of the identity
  of every reference in it; a reference is in nickname form when its namespace is an
  integer and in text form when its namespace is text.
\<close>

fun all_refs :: "(Identity \<Rightarrow> bool) \<Rightarrow> ari \<Rightarrow> bool"
  and all_refs_list :: "(Identity \<Rightarrow> bool) \<Rightarrow> ari list \<Rightarrow> bool"
where
  "all_refs P (LiteralARI t v) = True"
| "all_refs P (ReferenceARI ident None) = P ident"
| "all_refs P (ReferenceARI ident (Some params)) = (P ident \<and> all_refs_list P params)"
| "all_refs P (ACobj items) = all_refs_list P items"
| "all_refs P (EXPRobj t items) = all_refs_list P items"
| "all_refs P (TNVCobj items) = all_refs_list P items"
| "all_refs_list P [] = True"
| "all_refs_list P (x # xs) = (all_refs P x \<and> all_refs_list P xs)"

definition nickname_ns :: "Identity \<Rightarrow> bool" where
  "nickname_ns ident = (case namespace ident of Some (NsInt i) \<Rightarrow> True | _ \<Rightarrow> False)"

definition text_ns :: "Identity \<Rightarrow> bool" where
  "text_ns ident = (case namespace ident of Some (NsStr s) \<Rightarrow> True | _ \<Rightarrow> False)"

text \<open>
  A small catalog for the examples: the ADM \<open>amp_agent\<close> with enumeration 1, its report
  template \<open>full_report\<close> with enumeration 0, and the reference
  \<open>ari:/IANA:amp_agent/RPTT.full_report\<close>.
\<close>

definition example_adm :: AdmFile where
  "example_adm =
     \<lparr>abs_file_path = None, norm_name = Some ''amp_agent'',
      norm_namespace = Some ''amp_agent'', enum = Some 1,
      mdat = [], const = [], ctrl = [], edd = [], mac = [], oper = [],
      rptt = [\<lparr>obj_name = ''full_report'', obj_norm_name = Some ''full_report'',
               obj_enum = Some 0, rptt_parmspec = None, rptt_definition = []\<rparr>],
      tblt = [], var = []\<rparr>"

definition example_db :: Session where
  "example_db = \<lparr>adm_rows = [example_adm], loose_mdat = []\<rparr>"

definition example_ref :: Identity where
  "example_ref =
     \<lparr>namespace = Some (NsStr ''IANA:amp_agent''), type_enum = RPTT,
      name = NameStr ''full_report'', issuer = None, tag = None\<rparr>"

section \<open>The constraints (ace/constraints)\<close>

text \<open>
  A constraint is called with an object of any ORM class, or \<open>None\<close>. An \<open>Issue\<close> holds
  the constraint's name, the ADM's name, the object and a detail; the detail's text is
  modelled by the kind of message and the values it shows.
\<close>

datatype orm_obj =
    ObjNone
  | ObjAdmFile AdmFile
  | ObjMdat Mdat
  | ObjConst Const
  | ObjCtrl Ctrl
  | ObjEdd Edd
  | ObjMac Mac
  | ObjOper Oper
  | ObjRptt Rptt
  | ObjTblt Tblt
  | ObjVar Var
  | ObjARI orm_ARI

datatype detail =
    MissingMetadata string
  | MultipleADMs string pyval
  | DifferentFileName "string option" string
  | DuplicatedName string string
  | UnknownTypeName "string option" "string option"
  | NotResolvable "string option" Identity

record Issue =
  check_name :: "string option"
  adm_name :: "string option"
  issue_obj :: orm_obj
  detail :: detail

definition new_Issue :: "orm_obj \<Rightarrow> detail \<Rightarrow> Issue" where
  "new_Issue obj d = \<lparr>check_name = None, adm_name = None, issue_obj = obj, detail = d\<rparr>"

text \<open>A constraint returns the issues it appends and the number of rules it checked.\<close>

type_synonym constraint = "orm_obj \<Rightarrow> Session \<Rightarrow> error + (Issue list \<times> nat)"

subsection \<open>basic.py\<close>

text \<open>
  \<open>minimal_metadata\<close>: the body runs when \<open>obj is None\<close>, and then counts the \<open>Mdat\<close> rows
  whose \<open>admfile\<close> is \<open>None\<close> and whose name is the required one.
\<close>

definition minimal_metadata :: constraint where
  "minimal_metadata obj db =
     (if obj = ObjNone then
        Inr (concat (map (\<lambda>nm.
               if filter (\<lambda>m. obj_name m = nm) (loose_mdat db) = []
               then [new_Issue obj (MissingMetadata nm)] else [])
             [''name'', ''namespace'', ''enum'', ''version'']), 4)
      else Inr ([], 0))"

text \<open>
  \<open>unique_adm_names\<close>, for each of the three attributes: the values that more than one
  \<open>AdmFile\<close> has, and an issue for every \<open>AdmFile\<close> with such a value. The values come in
  the order of the \<open>GROUP BY\<close>, which in SQLite is ascending: \<open>NULL\<close> first, then the
  numbers, then text compared by its bytes. \<open>sql_sort\<close> is that order, by insertion.
\<close>

fun str_le :: "string \<Rightarrow> string \<Rightarrow> bool" where
  "str_le [] t = True"
| "str_le (a # s) [] = False"
| "str_le (a # s) (b # t) = (if a = b then str_le s t else (of_char a :: nat) < of_char b)"

definition sql_le :: "pyval \<Rightarrow> pyval \<Rightarrow> bool" where
  "sql_le a b =
     (case (a, b) of
        (PNone, _) \<Rightarrow> True
      | (PInt i, PInt j) \<Rightarrow> i \<le> j
      | (PInt i, PStr t) \<Rightarrow> True
      | (PStr s, PStr t) \<Rightarrow> str_le s t
      | _ \<Rightarrow> False)"

fun sql_insert :: "pyval \<Rightarrow> pyval list \<Rightarrow> pyval list" where
  "sql_insert v [] = [v]"
| "sql_insert v (x # xs) = (if sql_le v x then v # x # xs else x # sql_insert v xs)"

definition sql_sort :: "pyval list \<Rightarrow> pyval list" where
  "sql_sort xs = foldr sql_insert xs []"

definition dup_issues :: "string \<Rightarrow> (AdmFile \<Rightarrow> pyval) \<Rightarrow> Session \<Rightarrow> Issue list" where
  "dup_issues attr_name attr db =
     (let vals = map attr (adm_rows db);
          dups = sql_sort (remdups (filter (\<lambda>v. 1 < count_list vals v) vals))
      in concat (map (\<lambda>v.
           map (\<lambda>adm. new_Issue (ObjAdmFile adm) (MultipleADMs attr_name v))
               (filter (\<lambda>adm. attr adm = v) (adm_rows db))) dups))"

definition opt_str :: "string option \<Rightarrow> pyval" where
  "opt_str v = (case v of None \<Rightarrow> PNone | Some x \<Rightarrow> PStr x)"

definition opt_int :: "int option \<Rightarrow> pyval" where
  "opt_int v = (case v of None \<Rightarrow> PNone | Some x \<Rightarrow> PInt x)"

definition unique_adm_names :: constraint where
  "unique_adm_names obj db =
     Inr (dup_issues ''norm_name'' (\<lambda>a. opt_str (norm_name a)) db
          @ dup_issues ''norm_namespace'' (\<lambda>a. opt_str (norm_namespace a)) db
          @ dup_issues ''enum'' (\<lambda>a. opt_int (enum a)) db, 3)"

text \<open>\<open>os.path.basename\<close> and the root of \<open>os.path.splitext\<close>, for \<open>same_file_name\<close>.\<close>

definition basename :: "string \<Rightarrow> string" where
  "basename path = rev (takeWhile (\<lambda>c. c \<noteq> CHR ''/'') (rev path))"

definition splitext_root :: "string \<Rightarrow> string" where
  "splitext_root s =
     (let ext = takeWhile (\<lambda>c. c \<noteq> CHR ''.'') (rev s);
          rest = drop (length ext) (rev s)
      in if rest = [] then s
         else if list_all (\<lambda>c. c = CHR ''.'') (tl rest) then s
         else rev (tl rest))"

definition same_file_name :: constraint where
  "same_file_name obj db =
     (case obj of
        ObjAdmFile adm \<Rightarrow>
          (case abs_file_path adm of
             None \<Rightarrow> Inr ([], 0)
           | Some path \<Rightarrow>
               (let ext_name = splitext_root (basename path)
                in Inr (if norm_name adm \<noteq> Some ext_name
                        then [new_Issue obj (DifferentFileName (norm_name adm) path)]
                        else [], 1)))
      | _ \<Rightarrow> Inr ([], 0))"

text \<open>
  \<open>unique_object_names\<close>: in each list of children, an issue for the first repetition
  of a name. \<open>dupe_scan\<close> is the loop over one list, with the sets \<open>seen_names\<close> and
  \<open>dupe_names\<close>.
\<close>

fun dupe_scan :: "string \<Rightarrow> string list \<Rightarrow> string list \<Rightarrow> (string \<times> orm_obj) list \<Rightarrow> Issue list" where
  "dupe_scan list_name seen dupes [] = []"
| "dupe_scan list_name seen dupes ((nm, top_obj) # rest) =
     (if nm \<in> set seen \<and> nm \<notin> set dupes
      then new_Issue top_obj (DuplicatedName list_name nm)
           # dupe_scan list_name (nm # seen) (nm # dupes) rest
      else dupe_scan list_name (nm # seen) dupes rest)"

definition named :: "('a AdmObjMixin_scheme \<Rightarrow> orm_obj) \<Rightarrow> 'a AdmObjMixin_scheme list
    \<Rightarrow> (string \<times> orm_obj) list" where
  "named wrap xs = map (\<lambda>x. (obj_name x, wrap x)) xs"

definition unique_object_names :: constraint where
  "unique_object_names obj db =
     (case obj of
        ObjAdmFile adm \<Rightarrow>
          Inr (dupe_scan ''mdat'' [] [] (named ObjMdat (mdat adm))
               @ dupe_scan ''const'' [] [] (named ObjConst (const adm))
               @ dupe_scan ''ctrl'' [] [] (named ObjCtrl (ctrl adm))
               @ dupe_scan ''edd'' [] [] (named ObjEdd (edd adm))
               @ dupe_scan ''mac'' [] [] (named ObjMac (mac adm))
               @ dupe_scan ''oper'' [] [] (named ObjOper (oper adm))
               @ dupe_scan ''rptt'' [] [] (named ObjRptt (rptt adm))
               @ dupe_scan ''tblt'' [] [] (named ObjTblt (tblt adm))
               @ dupe_scan ''var'' [] [] (named ObjVar (var adm)), 9)
      | _ \<Rightarrow> Inr ([], 0))"

text \<open>\<open>top_obj.name\<close> of an object of any class; \<open>None\<close> and an \<open>AdmFile\<close> have no name.\<close>

definition top_name :: "orm_obj \<Rightarrow> string option" where
  "top_name obj =
     (case obj of
        ObjMdat x \<Rightarrow> Some (obj_name x)
      | ObjConst x \<Rightarrow> Some (obj_name x)
      | ObjCtrl x \<Rightarrow> Some (obj_name x)
      | ObjEdd x \<Rightarrow> Some (obj_name x)
      | ObjMac x \<Rightarrow> Some (obj_name x)
      | ObjOper x \<Rightarrow> Some (obj_name x)
      | ObjRptt x \<Rightarrow> Some (obj_name x)
      | ObjTblt x \<Rightarrow> Some (obj_name x)
      | ObjVar x \<Rightarrow> Some (obj_name x)
      | _ \<Rightarrow> None)"

text \<open>
  \<open>valid_type_name._check_type\<close>: the type name is looked up with \<open>StructType[type_name]\<close>,
  the exact member name; a \<open>KeyError\<close> gives an issue. The name \<open>None\<close> of a nullable
  column is no member name.
\<close>

definition check_type_name :: "orm_obj \<Rightarrow> string option \<Rightarrow> Issue list" where
  "check_type_name top_obj type_name =
     (case (case type_name of None \<Rightarrow> Inl KeyError | Some n \<Rightarrow> StructType_by_name n) of
        Inl _ \<Rightarrow> [new_Issue top_obj (UnknownTypeName (top_name top_obj) type_name)]
      | Inr _ \<Rightarrow> [])"

text \<open>\<open>valid_type_name.__call__\<close> on a child object: the issues and the count.\<close>

definition valid_type_name_obj :: "orm_obj \<Rightarrow> Issue list \<times> nat" where
  "valid_type_name_obj obj =
     (case obj of
        ObjConst x \<Rightarrow> (check_type_name obj (const_type x), 1)
      | ObjEdd x \<Rightarrow> (check_type_name obj (Some (edd_type x)), 1)
      | ObjOper x \<Rightarrow>
          (check_type_name obj (result_type x)
           @ concat (map (check_type_name obj) (in_type x)), 1 + length (in_type x))
      | ObjVar x \<Rightarrow>
          (case initializer x of
             None \<Rightarrow> (check_type_name obj (Some (var_type x)), 1)
           | Some init \<Rightarrow>
               (check_type_name obj (Some (var_type x)) @ check_type_name obj (expr_type init), 2))
      | _ \<Rightarrow> ([], 0))"

definition iter_call :: "('a \<Rightarrow> Issue list \<times> nat) \<Rightarrow> 'a list \<Rightarrow> Issue list \<times> nat" where
  "iter_call f container =
     (concat (map (\<lambda>x. fst (f x)) container), sum_list (map (\<lambda>x. snd (f x)) container))"

definition valid_type_name :: constraint where
  "valid_type_name obj db =
     (case obj of
        ObjAdmFile adm \<Rightarrow>
          (let c = iter_call (\<lambda>x. valid_type_name_obj (ObjConst x)) (const adm);
               e = iter_call (\<lambda>x. valid_type_name_obj (ObjEdd x)) (edd adm);
               p = iter_call (\<lambda>x. valid_type_name_obj (ObjOper x)) (oper adm);
               v = iter_call (\<lambda>x. valid_type_name_obj (ObjVar x)) (var adm)
           in Inr (fst c @ fst e @ fst p @ fst v, snd c + snd e + snd p + snd v))
      | _ \<Rightarrow> Inr (valid_type_name_obj obj))"

text \<open>
  \<open>valid_reference_ari\<close>, with \<open>get_ident\<close>, \<open>Identity.strip_name\<close> and \<open>find_ident\<close>
  (ace/util.py, ace/ari.py). \<open>normalize_ident\<close> case-folds and replaces \<open>/\<close> by \<open>_\<close>.
\<close>

definition normalize_ident :: "string \<Rightarrow> string" where
  "normalize_ident txt = map (\<lambda>c. if c = CHR ''/'' then CHR ''_'' else c) (casefold txt)"

definition get_ident :: "orm_ARI \<Rightarrow> error + Identity" where
  "get_ident obj =
     (case ari_nm obj of
        None \<Rightarrow> Inl AttributeError
      | Some n \<Rightarrow>
          (let type_name = takeWhile (\<lambda>c. c \<noteq> CHR ''.'') n;
               remain = drop (length type_name + 1) n
           in if length type_name = length n then Inl ValueError
              else case ari_ns obj of
                     None \<Rightarrow> Inl AttributeError
                   | Some nspace \<Rightarrow>
                       bindE (StructType_by_name (map to_upper type_name)) (\<lambda>t.
                         Inr \<lparr>namespace = Some (NsStr (normalize_ident nspace)), type_enum = t,
                              name = NameStr (normalize_ident remain),
                              issuer = None, tag = None\<rparr>)))"

definition strip_name :: "Identity \<Rightarrow> Identity" where
  "strip_name ident =
     (case name ident of
        NameStr n \<Rightarrow>
          if CHR ''('' \<in> set n
          then ident\<lparr>name := NameStr (takeWhile (\<lambda>c. c \<noteq> CHR ''('') n)\<rparr>
          else ident
      | NameBytes b \<Rightarrow> ident)"

definition find_ident :: "Session \<Rightarrow> Identity \<Rightarrow> error + Child option" where
  "find_ident db ident =
     (case (namespace ident, name ident) of
        (Some (NsStr nspace), NameStr n) \<Rightarrow>
          (case ORM_TYPE (type_enum ident) of
             None \<Rightarrow> Inr None
           | Some cls \<Rightarrow>
               one_or_none
                 (concat (map (\<lambda>adm.
                    filter (\<lambda>c. child_norm_name c = Some (normalize_ident n)) (cls adm))
                    (filter (\<lambda>adm. norm_namespace adm = Some (normalize_ident nspace))
                       (adm_rows db)))))
      | _ \<Rightarrow> Inl AttributeError)"

text \<open>
  The branch for an \<open>ARI\<close>. The detail of the issue reads \<open>top_obj.name\<close>, which raises
  \<open>AttributeError\<close> when \<open>top_obj\<close> is \<open>None\<close> or has no name.
\<close>

definition check_reference :: "Session \<Rightarrow> orm_obj \<Rightarrow> orm_ARI \<Rightarrow> error + (Issue list \<times> nat)" where
  "check_reference db top_obj obj =
     bindE (get_ident obj) (\<lambda>ident0.
       let ident = strip_name ident0 in
       bindE (find_ident db ident) (\<lambda>found.
         if found = None then
           (case top_name top_obj of
              None \<Rightarrow> Inl AttributeError
            | Some n \<Rightarrow> Inr ([new_Issue top_obj (NotResolvable (Some n) ident)], 1))
         else Inr ([], 1)))"

fun iter_refs :: "Session \<Rightarrow> orm_obj \<Rightarrow> orm_ARI list \<Rightarrow> error + (Issue list \<times> nat)" where
  "iter_refs db top_obj [] = Inr ([], 0)"
| "iter_refs db top_obj (x # xs) =
     bindE (check_reference db top_obj x) (\<lambda>(a, n).
     bindE (iter_refs db top_obj xs) (\<lambda>(b, m). Inr (a @ b, n + m)))"

definition valid_reference_obj :: "Session \<Rightarrow> orm_obj \<Rightarrow> error + (Issue list \<times> nat)" where
  "valid_reference_obj db obj =
     (case obj of
        ObjMac x \<Rightarrow> iter_refs db obj (action x)
      | ObjRptt x \<Rightarrow> iter_refs db obj (rptt_definition x)
      | ObjVar x \<Rightarrow>
          (case initializer x of
             None \<Rightarrow> Inr ([], 0)
           | Some init \<Rightarrow>
               (case postfix init of
                  None \<Rightarrow> Inl AttributeError
                | Some items \<Rightarrow> iter_refs db obj items))
      | ObjARI x \<Rightarrow> check_reference db ObjNone x
      | _ \<Rightarrow> Inr ([], 0))"

fun iter_objs :: "Session \<Rightarrow> orm_obj list \<Rightarrow> error + (Issue list \<times> nat)" where
  "iter_objs db [] = Inr ([], 0)"
| "iter_objs db (x # xs) =
     bindE (valid_reference_obj db x) (\<lambda>(a, n).
     bindE (iter_objs db xs) (\<lambda>(b, m). Inr (a @ b, n + m)))"

definition valid_reference_ari :: constraint where
  "valid_reference_ari obj db =
     (case obj of
        ObjAdmFile adm \<Rightarrow>
          iter_objs db (map ObjMac (mac adm) @ map ObjRptt (rptt adm) @ map ObjVar (var adm))
      | _ \<Rightarrow> valid_reference_obj db obj)"

subsection \<open>core.py\<close>

text \<open>
  \<open>CONSTRAINTS\<close>, in the order basic.py registers them, with the attribute \<open>is_global\<close>,
  which only \<open>unique_adm_names\<close> sets.
\<close>

record Registered =
  is_global :: bool
  call :: constraint

definition CONSTRAINTS :: "(string \<times> Registered) list" where
  "CONSTRAINTS =
     [(''ace.constraints.basic.minimal_metadata'',
         \<lparr>is_global = False, call = minimal_metadata\<rparr>),
      (''ace.constraints.basic.unique_adm_names'',
         \<lparr>is_global = True, call = unique_adm_names\<rparr>),
      (''ace.constraints.basic.same_file_name'',
         \<lparr>is_global = False, call = same_file_name\<rparr>),
      (''ace.constraints.basic.unique_object_names'',
         \<lparr>is_global = False, call = unique_object_names\<rparr>),
      (''ace.constraints.basic.valid_type_name'',
         \<lparr>is_global = False, call = valid_type_name\<rparr>),
      (''ace.constraints.basic.valid_reference_ari'',
         \<lparr>is_global = False, call = valid_reference_ari\<rparr>)]"

text \<open>
  \<open>Checker._add_result\<close>: the constraint runs on the object, and every issue without an
  ADM name or a check name gets them.
\<close>

definition fill_names :: "string \<Rightarrow> orm_obj \<Rightarrow> Issue \<Rightarrow> Issue" where
  "fill_names cst_name adm iss =
     (let named_iss =
            (if adm_name iss = None then
               (case adm of
                  ObjAdmFile a \<Rightarrow> iss\<lparr>adm_name := norm_name a\<rparr>
                | _ \<Rightarrow>
                    (case issue_obj iss of
                       ObjAdmFile a \<Rightarrow> iss\<lparr>adm_name := norm_name a\<rparr>
                     | _ \<Rightarrow> iss))
             else iss)
      in if check_name named_iss = None then named_iss\<lparr>check_name := Some cst_name\<rparr>
         else named_iss)"

definition add_result :: "Session \<Rightarrow> string \<Rightarrow> Registered \<Rightarrow> orm_obj \<Rightarrow> error + Issue list" where
  "add_result db cst_name cst adm =
     bindE (call cst adm db) (\<lambda>(issuelist, count). Inr (map (fill_names cst_name adm) issuelist))"

text \<open>
  \<open>Checker.check\<close>: the global constraints once, with \<open>None\<close>; then, for each ADM, the
  constraints that are not global. \<open>run_all\<close> is the loop over the registry.
\<close>

fun run_all :: "Session \<Rightarrow> (string \<times> Registered) list \<Rightarrow> orm_obj \<Rightarrow> error + Issue list" where
  "run_all db [] adm = Inr []"
| "run_all db ((cst_name, cst) # rest) adm =
     bindE (add_result db cst_name cst adm) (\<lambda>a.
     bindE (run_all db rest adm) (\<lambda>b. Inr (a @ b)))"

fun run_adms :: "Session \<Rightarrow> (string \<times> Registered) list \<Rightarrow> AdmFile list \<Rightarrow> error + Issue list" where
  "run_adms db csts [] = Inr []"
| "run_adms db csts (adm # adms) =
     bindE (run_all db csts (ObjAdmFile adm)) (\<lambda>a.
     bindE (run_adms db csts adms) (\<lambda>b. Inr (a @ b)))"

definition check :: "Session \<Rightarrow> AdmFile option \<Rightarrow> error + Issue list" where
  "check db src =
     (let adm_list = (case src of Some a \<Rightarrow> [a] | None \<Rightarrow> adm_rows db) in
      bindE (run_all db (filter (\<lambda>(n, c). is_global c) CONSTRAINTS) ObjNone) (\<lambda>g.
      bindE (run_adms db (filter (\<lambda>(n, c). \<not> is_global c) CONSTRAINTS) adm_list) (\<lambda>p.
        Inr (g @ p))))"

subsection \<open>Example catalogs\<close>

text \<open>
  An ADM as tests/test_constraints.py builds them, but without any \<open>mdat\<close> entry and in
  a file of another name.
\<close>

definition bare_adm :: AdmFile where
  "bare_adm =
     \<lparr>abs_file_path = Some ''/adms/othername.json'', norm_name = Some ''myadm'',
      norm_namespace = Some ''myns'', enum = Some 200,
      mdat = [], const = [], ctrl = [], edd = [], mac = [], oper = [], rptt = [],
      tblt = [], var = []\<rparr>"

definition bare_db :: Session where
  "bare_db = \<lparr>adm_rows = [bare_adm], loose_mdat = []\<rparr>"

text \<open>
  An ADM whose only object is a \<open>Var\<close> of type \<open>uint\<close>, and an \<open>Oper\<close> whose types are all
  \<open>UINT\<close>.
\<close>

definition uint_var :: Var where
  "uint_var =
     \<lparr>obj_name = ''organization'', obj_norm_name = Some ''organization'', obj_enum = Some 0,
      var_type = ''uint'', initializer = None\<rparr>"

definition uint_adm :: AdmFile where
  "uint_adm =
     \<lparr>abs_file_path = None, norm_name = Some ''myadm'',
      norm_namespace = Some ''myns'', enum = Some 200,
      mdat = [], const = [], ctrl = [], edd = [], mac = [], oper = [], rptt = [],
      tblt = [], var = [uint_var]\<rparr>"

definition uint_db :: Session where
  "uint_db = \<lparr>adm_rows = [uint_adm], loose_mdat = []\<rparr>"

definition plus_oper :: Oper where
  "plus_oper =
     \<lparr>obj_name = ''plusUINT'', obj_norm_name = Some ''plusuint'', obj_enum = Some 0,
      result_type = Some ''UINT'', in_type = [Some ''UINT'', Some ''UINT'']\<rparr>"

section \<open>Properties of the CBOR codec\<close>

lemma bindE_simps:
  "bindE (Inl e) f = Inl e"
  "bindE (Inr x) f = f x"
  by (simp_all add: bindE_def)

subsection \<open>An encoded item decodes to itself\<close>

















subsection \<open>Literals at the top level\<close>




subsection \<open>Byte-string literals\<close>

lemma uint_hi_nibble: "uint (drop_bit 4 (w :: byte)) < 16"
proof -
  have a: "unat (drop_bit 4 w) = unat w div 16"
    by (simp add: drop_bit_eq_div unat_div)
  have "unat w < 16 * 16" using unsigned_less [of w, where ?'a = nat] by simp
  then have "unat w div 16 < 16" by (rule less_mult_imp_div_less)
  with a have "unat (drop_bit 4 w) < 16" by (simp only:)
  then show ?thesis by (simp only: uint_nat)
qed

lemma StructType_of_value_eq: "StructType_of_value n = Inr t \<Longrightarrow> StructType_value t = n"
proof -
  assume a: "StructType_of_value n = Inr t"
  then obtain r where "filter (\<lambda>t. StructType_value t = n) StructType_members = t # r"
    by (auto simp: StructType_of_value_def split: list.splits)
  then show ?thesis by (auto simp: filter_eq_Cons_iff)
qed

lemma decode_literal_not_bstr: "decode_literal flags buf \<noteq> Inr (LiteralARI BSTR v, r)"
proof
  assume "decode_literal flags buf = Inr (LiteralARI BSTR v, r)"
  then have "StructType_of_value (uint (drop_bit 4 flags) + StructType_value BOOL) = Inr BSTR"
    by (auto simp: decode_literal_def bindE_def split: sum.splits error.splits)
  then have "uint (drop_bit 4 flags) + 16 = 39"
    by (auto dest: StructType_of_value_eq)
  then show False using uint_hi_nibble [of flags] by simp
qed

lemma decode_ari_not_bstr: "decode_ari n buf \<noteq> Inr (LiteralARI BSTR v, r)"
proof (cases n)
  case 0
  then show ?thesis by simp
next
  case (Suc k)
  show ?thesis unfolding Suc decode_ari.simps
    by (auto simp: bindE_def decode_literal_not_bstr split: sum.splits prod.splits)
qed

text \<open>
  Claim C10. A literal of type BSTR is encoded as the bare CBOR item of its value, a
  byte string (header of major type 2, then the octets) and no flag octet, also at the
  top level. The decoder takes a top-level literal's type from the upper nibble of the
  flag octet, a value from 16 to 31, so no input decodes to a top-level BSTR literal
  (39), and encoding then decoding never returns the literal.
\<close>

theorem bstr_literal_no_roundtrip:
  "encode (LiteralARI BSTR v) = cbor_encode v
   \<and> encode (LiteralARI BSTR (PBytes b)) = bindE (encode_length 2 (length b)) (\<lambda>h. Inr (h @ b))
   \<and> decode buf \<noteq> Inr (LiteralARI BSTR w)
   \<and> bindE (encode (LiteralARI BSTR v)) decode \<noteq> Inr (LiteralARI BSTR v)"
proof -
  have d: "decode x \<noteq> Inr (LiteralARI BSTR y)" for x y
    using decode_ari_not_bstr [of "Suc (length x)" x y]
    by (auto simp: decode_def split: sum.splits error.splits)
  have "bindE (encode (LiteralARI BSTR v)) decode \<noteq> Inr (LiteralARI BSTR v)"
    using d by (cases "encode (LiteralARI BSTR v)") (simp_all add: bindE_simps)
  with d show ?thesis by (simp add: encode_def)
qed

subsection \<open>The items of an AC and of an EXPR\<close>

lemma encode_ref_ari_Inr: "encode_ref_ari x = Inr b \<Longrightarrow> is_ReferenceARI x"
  by (cases x) simp_all

lemma bindE_eq_Inr: "bindE m f = Inr y \<Longrightarrow> \<exists>x. m = Inr x \<and> f x = Inr y"
  by (cases m) (simp_all add: bindE_simps)

lemma encode_ref_aris_Inr: "encode_ref_aris items = Inr b \<Longrightarrow> list_all is_ReferenceARI items"
proof (induction items arbitrary: b)
  case Nil
  then show ?case by simp
next
  case (Cons x xs)
  from Cons.prems obtain a c where "encode_ref_ari x = Inr a" "encode_ref_aris xs = Inr c"
    by (auto dest!: bindE_eq_Inr)
  then show ?case using Cons.IH encode_ref_ari_Inr by simp
qed

text \<open>
  Claim C9. The encoder hands every item of an AC or EXPR to \<open>_encode_ref_ari\<close>. When
  an item is not a \<open>ReferenceARI\<close>, encoding the AC or EXPR, at the top level or as a
  parameter, ends in an exception and returns no bytes. (\<open>Unmodelled\<close> can stand in
  the result only for an earlier item that is outside the CBOR model; the code goes on
  from there to the item that is no reference.)
\<close>

theorem ac_expr_items_must_be_references:
  assumes "\<exists>x \<in> set items. \<not> is_ReferenceARI x"
  shows "(\<exists>e. encode_obj (ACobj items) as_ari = Inl e)
       \<and> (\<exists>e. encode_obj (EXPRobj t items) as_ari = Inl e)
       \<and> (\<exists>e. encode (ACobj items) = Inl e)
       \<and> (\<exists>e. encode (EXPRobj t items) = Inl e)"
proof -
  have n: "encode_ref_aris items \<noteq> Inr b" for b
    using assms encode_ref_aris_Inr [of items b] by (auto simp: list_all_iff)
  have ac: "encode_obj (ACobj items) a \<noteq> Inr b" for a b
    using n by (auto dest!: bindE_eq_Inr)
  have ex: "encode_obj (EXPRobj t items) a \<noteq> Inr b" for a b
    using n by (auto dest!: bindE_eq_Inr)
  have "\<exists>e. m = Inl e" if "\<And>b. m \<noteq> Inr b" for m :: "error + bytes"
    using that by (cases m) auto
  with ac ex show ?thesis by (simp add: encode_def)
qed

text \<open>
  An instance: a literal in an AC, which the text parser produces from
  \<open>ari:/ns/CTRL.run([VAST.10])\<close>; the encoder raises \<open>AttributeError\<close>.
\<close>

theorem ac_expr_items_must_be_references_witness:
  "(\<exists>x \<in> set [LiteralARI VAST (PInt 10)]. \<not> is_ReferenceARI x)
   \<and> decode_text ''ari:/ns/CTRL.run([VAST.10])''
        = Inr (ReferenceARI \<lparr>namespace = Some (NsStr ''ns''), type_enum = CTRL,
                 name = NameStr ''run'', issuer = None, tag = None\<rparr>
                 (Some [ACobj [LiteralARI VAST (PInt 10)]]))
   \<and> encode (ACobj [LiteralARI VAST (PInt 10)]) = Inl AttributeError
   \<and> encode (EXPRobj BOOL [LiteralARI VAST (PInt 10)]) = Inl AttributeError
   \<and> encode (ReferenceARI \<lparr>namespace = Some (NsStr ''ns''), type_enum = CTRL,
                 name = NameStr ''run'', issuer = None, tag = None\<rparr>
                 (Some [ACobj [LiteralARI VAST (PInt 10)]])) = Inl AttributeError"
proof -
  have a: "\<exists>x \<in> set [LiteralARI VAST (PInt 10)]. \<not> is_ReferenceARI x" by simp
  have b: "decode_text ''ari:/ns/CTRL.run([VAST.10])''
        = Inr (ReferenceARI \<lparr>namespace = Some (NsStr ''ns''), type_enum = CTRL,
                 name = NameStr ''run'', issuer = None, tag = None\<rparr>
                 (Some [ACobj [LiteralARI VAST (PInt 10)]]))"
    by code_simp
  have c: "encode (ReferenceARI \<lparr>namespace = Some (NsStr ''ns''), type_enum = CTRL,
                 name = NameStr ''run'', issuer = None, tag = None\<rparr>
                 (Some [ACobj [LiteralARI VAST (PInt 10)]])) = Inl AttributeError"
    by code_simp
  have d: "encode (ACobj [LiteralARI VAST (PInt 10)]) = Inl AttributeError"
    "encode (EXPRobj BOOL [LiteralARI VAST (PInt 10)]) = Inl AttributeError"
    by code_simp+
  from ac_expr_items_must_be_references [OF a, of True BOOL] a b c d show ?thesis by simp
qed

section \<open>Properties of the text codec\<close>

subsection \<open>Absent and empty parameters\<close>

lemma parse_ident_tokens:
  assumes "p_objid nm_tok = Some nm"
  shows "parse_ident (ident_tokens nspace t nm_tok @ r)
    = Inr (\<lparr>namespace = nspace, type_enum = t, name = nm, issuer = None, tag = None\<rparr>, r)"
proof (cases nspace)
  case None
  then show ?thesis using assms
    by (simp add: ident_tokens_def parse_ident_def expect_def next_tok_def bindE_simps
        parse_typedot_objid_def)
next
  case (Some n)
  then show ?thesis using assms
    by (cases n)
       (simp_all add: ident_tokens_def parse_ident_def expect_def next_tok_def bindE_simps
        parse_typedot_objid_def)
qed

lemma next_tok_simps:
  "next_tok [] = Inr (None, [])"
  "next_tok (Inr tk # r) = Inr (Some tk, r)"
  "next_tok (Inl e # r) = Inl e"
  by (simp_all add: next_tok_def)

lemma next_tok_ident_tokens:
  "next_tok (ident_tokens nspace t nm_tok @ r) = Inr (Some T_SLASH, tl (ident_tokens nspace t nm_tok @ r))"
  by (simp add: ident_tokens_def next_tok_def)

text \<open>
  Claim C3. For the tokens of any \<open>ident\<close> (with or without a namespace, the name a
  \<open>NAME\<close> or a \<open>BSTR\<close>), the parser returns the empty list of parameters for
  \<open>ident()\<close> and \<open>None\<close> for the bare \<open>ident\<close>. The encoder writes the reference and
  nothing more when the parameters are \<open>None\<close>, and appends the parenthesised list when
  they are a list, also an empty one.
\<close>

theorem params_absent_or_empty:
  assumes "p_objid nm_tok = Some nm"
  shows "decode_tokens (Inr T_ARI_PREFIX # ident_tokens nspace t nm_tok @ [Inr T_LPAREN, Inr T_RPAREN])
           = Inr (ReferenceARI \<lparr>namespace = nspace, type_enum = t, name = nm,
                                issuer = None, tag = None\<rparr> (Some []))
       \<and> decode_tokens (Inr T_ARI_PREFIX # ident_tokens nspace t nm_tok)
           = Inr (ReferenceARI \<lparr>namespace = nspace, type_enum = t, name = nm,
                                issuer = None, tag = None\<rparr> None)
       \<and> text_encode (ReferenceARI ident None) = Inr (ident_text ident)
       \<and> text_encode (ReferenceARI ident (Some [])) = Inr (ident_text ident @ ''()'')
       \<and> text_encode (ReferenceARI ident (Some ps))
           = bindE (encode_items True ps) (\<lambda>b. Inr (ident_text ident @ ''('' @ b @ '')''))"
proof -
  let ?i = "\<lparr>namespace = nspace, type_enum = t, name = nm, issuer = None, tag = None\<rparr>"
  have a: "parse_ssp n (ident_tokens nspace t nm_tok @ [Inr T_LPAREN, Inr T_RPAREN])
             = Inr (ReferenceARI ?i (Some []), [])" for n
    by (simp add: next_tok_ident_tokens parse_ident_tokens [OF assms] bindE_simps next_tok_simps)
  have b: "parse_ssp n (ident_tokens nspace t nm_tok) = Inr (ReferenceARI ?i None, [])" for n
    using parse_ident_tokens [OF assms, of nspace t "[]"] next_tok_ident_tokens [of nspace t nm_tok "[]"]
    by (simp add: bindE_simps next_tok_simps)
  have c: "decode_tokens (Inr T_ARI_PREFIX # ident_tokens nspace t nm_tok @ [Inr T_LPAREN, Inr T_RPAREN])
           = Inr (ReferenceARI ?i (Some []))"
    by (simp add: decode_tokens_def parse_def next_tok_simps bindE_simps a del: parse_ssp.simps)
  have d: "decode_tokens (Inr T_ARI_PREFIX # ident_tokens nspace t nm_tok)
           = Inr (ReferenceARI ?i None)"
    by (simp add: decode_tokens_def parse_def next_tok_simps bindE_simps b del: parse_ssp.simps)
  have e: "text_encode (ReferenceARI ident (Some ps))
           = bindE (encode_items True ps) (\<lambda>b. Inr (ident_text ident @ ''('' @ b @ '')''))"
    by (cases "encode_items True ps") (simp_all add: bindE_simps)
  from c d e show ?thesis by (simp add: bindE_simps)
qed

text \<open>
  The two texts of the specification's scenario decode as stated and encode back to
  themselves, one with its parentheses and one without.
\<close>

theorem params_absent_or_empty_witness:
  "p_objid (T_NAME ''hello'') = Some (NameStr ''hello'')
   \<and> tokens_of ''ari:/namespace/VAR.hello()''
       = Inr T_ARI_PREFIX # ident_tokens (Some (NsStr ''namespace'')) VAR (T_NAME ''hello'')
           @ [Inr T_LPAREN, Inr T_RPAREN]
   \<and> tokens_of ''ari:/namespace/VAR.hello''
       = Inr T_ARI_PREFIX # ident_tokens (Some (NsStr ''namespace'')) VAR (T_NAME ''hello'')
   \<and> decode_text ''ari:/namespace/VAR.hello()''
       = Inr (ReferenceARI \<lparr>namespace = Some (NsStr ''namespace''), type_enum = VAR,
                name = NameStr ''hello'', issuer = None, tag = None\<rparr> (Some []))
   \<and> decode_text ''ari:/namespace/VAR.hello''
       = Inr (ReferenceARI \<lparr>namespace = Some (NsStr ''namespace''), type_enum = VAR,
                name = NameStr ''hello'', issuer = None, tag = None\<rparr> None)
   \<and> bindE (decode_text ''ari:/namespace/VAR.hello()'') text_encode
       = Inr ''ari:/namespace/VAR.hello()''
   \<and> bindE (decode_text ''ari:/namespace/VAR.hello'') text_encode
       = Inr ''ari:/namespace/VAR.hello''"
proof -
  have a: "p_objid (T_NAME ''hello'') = Some (NameStr ''hello'')" by (simp add: p_objid_def)
  have l1: "tokens_of ''ari:/namespace/VAR.hello()''
       = Inr T_ARI_PREFIX # ident_tokens (Some (NsStr ''namespace'')) VAR (T_NAME ''hello'')
           @ [Inr T_LPAREN, Inr T_RPAREN]"
    by code_simp
  have l2: "tokens_of ''ari:/namespace/VAR.hello''
       = Inr T_ARI_PREFIX # ident_tokens (Some (NsStr ''namespace'')) VAR (T_NAME ''hello'')"
    by code_simp
  have t: "ident_text \<lparr>namespace = Some (NsStr ''namespace''), type_enum = VAR,
                name = NameStr ''hello'', issuer = None, tag = None\<rparr> = ''ari:/namespace/VAR.hello''"
    by (simp add: ident_text_def truthy_ns_def str_ns_def)
  let ?i = "\<lparr>namespace = Some (NsStr ''namespace''), type_enum = VAR,
                name = NameStr ''hello'', issuer = None, tag = None\<rparr>"
  note th = params_absent_or_empty [OF a, of "Some (NsStr ''namespace'')" VAR ?i "[]"]
  have d1: "decode_text ''ari:/namespace/VAR.hello()'' = Inr (ReferenceARI ?i (Some []))"
    unfolding decode_text_def l1 by (rule th [THEN conjunct1])
  have d2: "decode_text ''ari:/namespace/VAR.hello'' = Inr (ReferenceARI ?i None)"
    unfolding decode_text_def l2 by (rule th [THEN conjunct2, THEN conjunct1])
  have e1: "text_encode (ReferenceARI ?i (Some [])) = Inr ''ari:/namespace/VAR.hello()''"
    using th unfolding t by (simp add: bindE_simps)
  have e2: "text_encode (ReferenceARI ?i None) = Inr ''ari:/namespace/VAR.hello''"
    using th unfolding t by (simp add: bindE_simps)
  show ?thesis
    unfolding d1 d2 bindE_simps e1 e2 using a l1 l2 by blast
qed

subsection \<open>Literals with a type prefix\<close>

lemma decode_typed_literal:
  assumes "p_litvalue tv = Some lit"
  shows "decode_tokens [Inr (T_TYPEDOT t), Inr tv]
    = (case check_type t (literal_value lit) of
         Inl _ \<Rightarrow> Inl ParseError
       | Inr _ \<Rightarrow> Inr (LiteralARI t (literal_value lit)))"
proof -
  have "parse_literal [Inr (T_TYPEDOT t), Inr tv]
      = bindE (p_literal_with_type t lit) (\<lambda>x. Inr (x, []))"
    using assms by (simp add: parse_literal_def next_tok_simps bindE_simps)
  then show ?thesis
    by (cases "check_type t (literal_value lit)")
       (simp_all add: decode_tokens_def parse_def next_tok_simps bindE_simps
          p_literal_with_type_def text_errors_def)
qed

lemma NUMERIC_LIMITS_not_special:
  "NUMERIC_LIMITS t = Some lim \<Longrightarrow> t \<noteq> BOOL \<and> t \<noteq> STR' \<and> t \<noteq> BSTR"
  by (cases t) simp_all

lemma NUMERIC_LIMITS_finite:
  "NUMERIC_LIMITS t = Some (lo, hi) \<Longrightarrow> - (2 ^ 1024 - 2 ^ 970) < lo \<and> hi < 2 ^ 1024 - 2 ^ 970"
  by (cases t) auto

lemma check_type_int:
  assumes "NUMERIC_LIMITS t = Some (lo, hi)"
  shows "(\<exists>e. check_type t (PInt i) = Inl e) = (\<not> (lo \<le> i \<and> i \<le> hi))"
proof -
  note f = NUMERIC_LIMITS_finite [OF assms]
  note n = NUMERIC_LIMITS_not_special [OF assms]
  show ?thesis
  proof (cases "2 ^ 1024 - 2 ^ 970 \<le> \<bar>i\<bar>")
    case True
    with f have "\<not> (lo \<le> i \<and> i \<le> hi)" by linarith
    with True assms n show ?thesis
      by (simp add: check_type_def math_isfinite_def as_number_def bindE_simps)
  next
    case False
    with assms n show ?thesis
      by (auto simp: check_type_def math_isfinite_def as_number_def bindE_simps)
  qed
qed

lemma check_type_bool:
  assumes "NUMERIC_LIMITS t = Some (lo, hi)"
  shows "(\<exists>e. check_type t (PBool c) = Inl e)
    = (\<not> (lo \<le> (if c then 1 else 0) \<and> (if c then 1 else 0) \<le> hi))"
proof -
  note n = NUMERIC_LIMITS_not_special [OF assms]
  have "\<not> (2 ^ 1024 - 2 ^ 970 \<le> \<bar>if c then 1 else (0::int)\<bar>)" by simp
  with assms n show ?thesis
    by (auto simp: check_type_def math_isfinite_def as_number_def bindE_simps)
qed

text \<open>
  Claim C6 does not hold of the code: a value of the wrong kind is not always refused.
  For a literal with a type prefix, the decoder runs \<open>check_type\<close> and reports its
  failure as \<open>ParseError\<close>, and \<open>check_type\<close> does this:
  \<^item> under a type with numeric limits, an integer is accepted exactly when it is
    within the limits, and text and byte strings are refused; but a boolean is read as
    the number 0 or 1 and accepted when that is within the limits, so that \<open>BYTE.true\<close>
    is a literal;
  \<^item> under \<open>BOOL\<close>, a boolean is accepted and text, byte strings and integers other
    than 0 and 1 are refused; the integers 0 and 1 are accepted;
  \<^item> under \<open>STR\<close> only text and under \<open>BSTR\<close> only a byte string is accepted;
  \<^item> under any other type name the value is not checked.
  \<open>BYTE.300\<close> fails with \<open>ParseError\<close>.
\<close>

theorem typed_literal_checks:
  assumes "NUMERIC_LIMITS t = Some (lo, hi)" and "k \<noteq> 0" and "k \<noteq> 1"
    and "NUMERIC_LIMITS u = None" and "u \<notin> {BOOL, STR', BSTR}" and "p_litvalue tv = Some lit"
  shows "decode_tokens [Inr (T_TYPEDOT t), Inr (T_INT i)]
           = (if lo \<le> i \<and> i \<le> hi then Inr (LiteralARI t (PInt i)) else Inl ParseError)
       \<and> decode_tokens [Inr (T_TYPEDOT t), Inr (T_TSTR s)] = Inl ParseError
       \<and> decode_tokens [Inr (T_TYPEDOT t), Inr (T_BSTR b)] = Inl ParseError
       \<and> decode_tokens [Inr (T_TYPEDOT t), Inr (T_BOOL c)]
           = (if lo \<le> (if c then 1 else 0) \<and> (if c then 1 else 0) \<le> hi
              then Inr (LiteralARI t (PBool c)) else Inl ParseError)
       \<and> decode_tokens [Inr (T_TYPEDOT BOOL), Inr (T_BOOL c)] = Inr (LiteralARI BOOL (PBool c))
       \<and> decode_tokens [Inr (T_TYPEDOT BOOL), Inr (T_INT k)] = Inl ParseError
       \<and> decode_tokens [Inr (T_TYPEDOT BOOL), Inr (T_INT 0)] = Inr (LiteralARI BOOL (PInt 0))
       \<and> decode_tokens [Inr (T_TYPEDOT BOOL), Inr (T_INT 1)] = Inr (LiteralARI BOOL (PInt 1))
       \<and> decode_tokens [Inr (T_TYPEDOT BOOL), Inr (T_TSTR s)] = Inl ParseError
       \<and> decode_tokens [Inr (T_TYPEDOT BOOL), Inr (T_BSTR b)] = Inl ParseError
       \<and> decode_tokens [Inr (T_TYPEDOT STR'), Inr (T_TSTR s)] = Inr (LiteralARI STR' (PStr s))
       \<and> decode_tokens [Inr (T_TYPEDOT STR'), Inr (T_INT i)] = Inl ParseError
       \<and> decode_tokens [Inr (T_TYPEDOT STR'), Inr (T_BOOL c)] = Inl ParseError
       \<and> decode_tokens [Inr (T_TYPEDOT STR'), Inr (T_BSTR b)] = Inl ParseError
       \<and> decode_tokens [Inr (T_TYPEDOT BSTR), Inr (T_BSTR b)] = Inr (LiteralARI BSTR (PBytes b))
       \<and> decode_tokens [Inr (T_TYPEDOT BSTR), Inr (T_INT i)] = Inl ParseError
       \<and> decode_tokens [Inr (T_TYPEDOT BSTR), Inr (T_BOOL c)] = Inl ParseError
       \<and> decode_tokens [Inr (T_TYPEDOT BSTR), Inr (T_TSTR s)] = Inl ParseError
       \<and> decode_tokens [Inr (T_TYPEDOT u), Inr tv] = Inr (LiteralARI u (literal_value lit))
       \<and> decode_text ''BYTE.300'' = Inl ParseError"
proof -
  note n = NUMERIC_LIMITS_not_special [OF assms(1)]
  have num: "decode_tokens [Inr (T_TYPEDOT t), Inr (T_INT i)]
           = (if lo \<le> i \<and> i \<le> hi then Inr (LiteralARI t (PInt i)) else Inl ParseError)"
  proof -
    have d: "decode_tokens [Inr (T_TYPEDOT t), Inr (T_INT i)]
        = (case check_type t (PInt i) of
             Inl _ \<Rightarrow> Inl ParseError
           | Inr _ \<Rightarrow> Inr (LiteralARI t (PInt i)))"
      by (subst decode_typed_literal [where lit = "LiteralARI VAST (PInt i)"])
         (simp_all add: p_litvalue_def cong: sum.case_cong)
    from check_type_int [OF assms(1), of i] show ?thesis
      by (cases "check_type t (PInt i)") (auto simp: d)
  qed
  have str: "decode_tokens [Inr (T_TYPEDOT t), Inr (T_TSTR s)] = Inl ParseError"
    using assms(1) n
    by (subst decode_typed_literal [where lit = "LiteralARI STR' (PStr s)"])
       (auto simp: p_litvalue_def check_type_def math_isfinite_def as_number_def bindE_simps)
  have bstr: "decode_tokens [Inr (T_TYPEDOT t), Inr (T_BSTR b)] = Inl ParseError"
    using assms(1) n
    by (subst decode_typed_literal [where lit = "LiteralARI BSTR (PBytes b)"])
       (auto simp: p_litvalue_def check_type_def math_isfinite_def as_number_def bindE_simps)
  have bool: "decode_tokens [Inr (T_TYPEDOT t), Inr (T_BOOL c)]
           = (if lo \<le> (if c then 1 else 0) \<and> (if c then 1 else 0) \<le> hi
              then Inr (LiteralARI t (PBool c)) else Inl ParseError)"
  proof -
    have d: "decode_tokens [Inr (T_TYPEDOT t), Inr (T_BOOL c)]
        = (case check_type t (PBool c) of
             Inl _ \<Rightarrow> Inl ParseError
           | Inr _ \<Rightarrow> Inr (LiteralARI t (PBool c)))"
      by (subst decode_typed_literal [where lit = "LiteralARI BOOL (PBool c)"])
         (simp_all add: p_litvalue_def cong: sum.case_cong)
    from check_type_bool [OF assms(1), of c] show ?thesis
      by (cases "check_type t (PBool c)") (auto simp: d)
  qed
  have fixed:
    "decode_tokens [Inr (T_TYPEDOT BOOL), Inr (T_BOOL c)] = Inr (LiteralARI BOOL (PBool c))"
    "decode_tokens [Inr (T_TYPEDOT BOOL), Inr (T_INT 0)] = Inr (LiteralARI BOOL (PInt 0))"
    "decode_tokens [Inr (T_TYPEDOT BOOL), Inr (T_INT 1)] = Inr (LiteralARI BOOL (PInt 1))"
    "decode_tokens [Inr (T_TYPEDOT BOOL), Inr (T_TSTR s)] = Inl ParseError"
    "decode_tokens [Inr (T_TYPEDOT BOOL), Inr (T_BSTR b)] = Inl ParseError"
    "decode_tokens [Inr (T_TYPEDOT STR'), Inr (T_TSTR s)] = Inr (LiteralARI STR' (PStr s))"
    "decode_tokens [Inr (T_TYPEDOT STR'), Inr (T_INT i)] = Inl ParseError"
    "decode_tokens [Inr (T_TYPEDOT STR'), Inr (T_BOOL c)] = Inl ParseError"
    "decode_tokens [Inr (T_TYPEDOT STR'), Inr (T_BSTR b)] = Inl ParseError"
    "decode_tokens [Inr (T_TYPEDOT BSTR), Inr (T_BSTR b)] = Inr (LiteralARI BSTR (PBytes b))"
    "decode_tokens [Inr (T_TYPEDOT BSTR), Inr (T_INT i)] = Inl ParseError"
    "decode_tokens [Inr (T_TYPEDOT BSTR), Inr (T_BOOL c)] = Inl ParseError"
    "decode_tokens [Inr (T_TYPEDOT BSTR), Inr (T_TSTR s)] = Inl ParseError"
    by (simp_all add: decode_typed_literal p_litvalue_def check_type_def in_False_True_def)
  have bint: "decode_tokens [Inr (T_TYPEDOT BOOL), Inr (T_INT k)] = Inl ParseError"
    using assms(2,3)
    by (simp add: decode_typed_literal p_litvalue_def check_type_def in_False_True_def)
  have other: "decode_tokens [Inr (T_TYPEDOT u), Inr tv] = Inr (LiteralARI u (literal_value lit))"
    using assms(4,5) by (simp add: decode_typed_literal [OF assms(6)] check_type_def)
  have ex: "decode_text ''BYTE.300'' = Inl ParseError" by code_simp
  from num str bstr bool fixed bint other ex show ?thesis by simp
qed

text \<open>
  An instance: \<open>BYTE.300\<close>, \<open>BYTE.255\<close>, \<open>BOOL.10\<close> and \<open>CTRL.5\<close>, and \<open>BYTE.true\<close>, where
  the value is a boolean, the named type an integer type, and the decoder returns the
  literal.
\<close>

theorem typed_literal_checks_witness:
  "NUMERIC_LIMITS BYTE = Some (0, 255) \<and> (10::int) \<noteq> 0 \<and> (10::int) \<noteq> 1
   \<and> NUMERIC_LIMITS CTRL = None \<and> CTRL \<notin> {BOOL, STR', BSTR}
   \<and> p_litvalue (T_INT 5) = Some (LiteralARI VAST (PInt 5))
   \<and> tokens_of ''BYTE.300'' = [Inr (T_TYPEDOT BYTE), Inr (T_INT 300)]
   \<and> decode_tokens [Inr (T_TYPEDOT BYTE), Inr (T_INT 300)] = Inl ParseError
   \<and> decode_tokens [Inr (T_TYPEDOT BYTE), Inr (T_INT 255)] = Inr (LiteralARI BYTE (PInt 255))
   \<and> decode_tokens [Inr (T_TYPEDOT BOOL), Inr (T_INT 10)] = Inl ParseError
   \<and> decode_tokens [Inr (T_TYPEDOT CTRL), Inr (T_INT 5)] = Inr (LiteralARI CTRL (PInt 5))
   \<and> tokens_of ''BYTE.true'' = [Inr (T_TYPEDOT BYTE), Inr (T_BOOL True)]
   \<and> decode_tokens [Inr (T_TYPEDOT BYTE), Inr (T_BOOL True)]
       = Inr (LiteralARI BYTE (PBool True))"
proof -
  have a: "NUMERIC_LIMITS BYTE = Some (0, 255)" by simp
  have b: "(10::int) \<noteq> 0" "(10::int) \<noteq> 1" by simp_all
  have c: "NUMERIC_LIMITS CTRL = None" "CTRL \<notin> {BOOL, STR', BSTR}" by simp_all
  have d: "p_litvalue (T_INT 5) = Some (LiteralARI VAST (PInt 5))" by (simp add: p_litvalue_def)
  have l: "tokens_of ''BYTE.300'' = [Inr (T_TYPEDOT BYTE), Inr (T_INT 300)]" by code_simp
  have m: "tokens_of ''BYTE.true'' = [Inr (T_TYPEDOT BYTE), Inr (T_BOOL True)]" by code_simp
  from typed_literal_checks [OF a b c d, where i = 300]
    typed_literal_checks [OF a b c d, where i = 255 and c = True]
  show ?thesis using a b c d l m by simp
qed

text \<open>
  The same from the text: \<open>BYTE.true\<close> and \<open>BOOL.1\<close> are read as literals, while the
  branches for \<open>STR\<close> and \<open>BSTR\<close> test the kind and \<open>STR.true\<close> is refused.
\<close>

lemma typed_literal_kind_examples:
  "decode_text ''BYTE.true'' = Inr (LiteralARI BYTE (PBool True))"
  "decode_text ''BOOL.1'' = Inr (LiteralARI BOOL (PInt 1))"
  "decode_text ''STR.true'' = Inl ParseError"
  by code_simp+

section \<open>Properties of the nickname converter\<close>

subsection \<open>Conversion to nicknames\<close>

lemma split_on_absent: "d \<notin> set s \<Longrightarrow> split_on d s = [s]"
  by (induction s) auto

lemma split_on_first: "d \<notin> set p \<Longrightarrow> split_on d (p @ d # a) = p # split_on d a"
  by (induction p) auto

lemma split_prefix_name:
  "CHR '':'' \<notin> set p \<Longrightarrow> CHR '':'' \<notin> set a \<Longrightarrow> split_on (CHR '':'') (p @ '':'' @ a) = [p, a]"
  by (simp add: split_on_first split_on_absent)

lemma AdmObjType_table_values:
  "AdmObjType_by_name ''CONST'' = Inr 0 \<and> AdmObjType_by_name ''CTRL'' = Inr 1
   \<and> AdmObjType_by_name ''EDD'' = Inr 2 \<and> AdmObjType_by_name ''MAC'' = Inr 3
   \<and> AdmObjType_by_name ''OPER'' = Inr 4 \<and> AdmObjType_by_name ''RPTT'' = Inr 5
   \<and> AdmObjType_by_name ''SBR'' = Inr 6 \<and> AdmObjType_by_name ''TBLT'' = Inr 7
   \<and> AdmObjType_by_name ''TBR'' = Inr 8 \<and> AdmObjType_by_name ''VAR'' = Inr 9
   \<and> AdmObjType_by_name ''MDAT'' = Inr 10"
  by (simp add: AdmObjType_by_name_def AdmObjType_table_def)

text \<open>
  Claim C2. Let a reference have the textual namespace \<open>prefix:adm_name\<close>, let the ADM
  of that name and the child of the reference's type and name exist in the catalog, and
  let both have enumerations. Then \<open>TO_NN\<close> conversion leaves the reference with the
  namespace \<open>adm.enum * 20 + nick_kind\<close>, where \<open>nick_kind\<close> is the entry of the fixed
  table for the reference's type, and with the CBOR encoding of the child's enumeration
  as its name. The two are assigned before the parameters are looked at, so they stand
  whatever the rest of the conversion does. (SBR and TBR are in the table but have no
  class of children in the catalog.)
\<close>

theorem to_nn_replaces_namespace_and_name:
  assumes "namespace ident = Some (NsStr (pre @ '':'' @ aname))"
    and "CHR '':'' \<notin> set pre" and "CHR '':'' \<notin> set aname"
    and "get_by_norm_name adms aname = Inr adm" and "enum adm = Some adm_enum"
    and "AdmObjType_by_name (StructType_name (type_enum ident)) = Inr nick_kind"
    and "ORM_TYPE (type_enum ident) = Some cls" and "name ident = NameStr oname"
    and "get_child adm cls (Some oname) None = Inr (Some ob)"
    and "child_enum ob = Some ob_enum" and "cbor_dumps (PInt ob_enum) = Inr b"
  shows "fst (fst (convert_ari TO_NN adms must ident params))
           = ident\<lparr>namespace := Some (NsInt (adm_enum * 20 + nick_kind)), name := NameBytes b\<rparr>
       \<and> (\<exists>ps err. convert TO_NN adms must (ReferenceARI ident params)
             = (ReferenceARI
                  (ident\<lparr>namespace := Some (NsInt (adm_enum * 20 + nick_kind)),
                         name := NameBytes b\<rparr>) ps, err))
       \<and> AdmObjType_by_name ''CONST'' = Inr 0 \<and> AdmObjType_by_name ''CTRL'' = Inr 1
       \<and> AdmObjType_by_name ''EDD'' = Inr 2 \<and> AdmObjType_by_name ''MAC'' = Inr 3
       \<and> AdmObjType_by_name ''OPER'' = Inr 4 \<and> AdmObjType_by_name ''RPTT'' = Inr 5
       \<and> AdmObjType_by_name ''SBR'' = Inr 6 \<and> AdmObjType_by_name ''TBLT'' = Inr 7
       \<and> AdmObjType_by_name ''TBR'' = Inr 8 \<and> AdmObjType_by_name ''VAR'' = Inr 9
       \<and> AdmObjType_by_name ''MDAT'' = Inr 10"
proof -
  let ?i = "ident\<lparr>namespace := Some (NsInt (adm_enum * 20 + nick_kind)), name := NameBytes b\<rparr>"
  have look: "nn_lookup adms (pre @ '':'' @ aname) ident = Inr (adm, nick_kind, Some ob)"
    using assms(4,6,7,8,9) split_prefix_name [OF assms(2,3)]
    by (simp add: nn_lookup_def bindE_simps)
  have "fst (fst (nn_assign adm_enum nick_kind ob ob_enum ident params)) = ?i"
    using assms(11) by (simp add: nn_assign_def Let_def split: option.splits prod.splits)
  then have "fst (fst (to_nn adms must (pre @ '':'' @ aname) ident params)) = ?i"
    using look assms(5,10) by (simp add: to_nn_def)
  then have a: "fst (fst (convert_ari TO_NN adms must ident params)) = ?i"
    using assms(1) by (simp add: convert_ari_def)
  obtain i' ps' err where c: "convert_ari TO_NN adms must ident params = ((i', ps'), err)"
    by (metis surj_pair)
  with a have i': "i' = ?i" by simp
  have "\<exists>ps e. convert TO_NN adms must (ReferenceARI ident params) = (ReferenceARI ?i ps, e)"
    using c i' by (cases err; cases ps') (auto split: prod.splits)
  with a AdmObjType_table_values show ?thesis by simp
qed

text \<open>
  An instance: \<open>ari:/IANA:amp_agent/RPTT.full_report\<close> becomes namespace
  \<open>1 * 20 + 5 = 25\<close> and name \<open>0x00\<close>, and encodes to \<open>0x8718194100\<close>.
\<close>

theorem to_nn_replaces_namespace_and_name_witness:
  "namespace example_ref = Some (NsStr (''IANA'' @ '':'' @ ''amp_agent''))
   \<and> CHR '':'' \<notin> set ''IANA'' \<and> CHR '':'' \<notin> set ''amp_agent''
   \<and> get_by_norm_name example_db ''amp_agent'' = Inr example_adm
   \<and> enum example_adm = Some 1
   \<and> AdmObjType_by_name (StructType_name (type_enum example_ref)) = Inr 5
   \<and> ORM_TYPE (type_enum example_ref) \<noteq> None
   \<and> name example_ref = NameStr ''full_report''
   \<and> get_child example_adm (the (ORM_TYPE RPTT)) (Some ''full_report'') None
        = Inr (Some \<lparr>child_norm_name = Some ''full_report'', child_enum = Some 0,
                      child_parmspec = None\<rparr>)
   \<and> cbor_dumps (PInt 0) = Inr [0x00]
   \<and> convert TO_NN example_db True (ReferenceARI example_ref None)
        = (ReferenceARI (example_ref\<lparr>namespace := Some (NsInt 25), name := NameBytes [0x00]\<rparr>)
             None, None)
   \<and> encode (ReferenceARI (example_ref\<lparr>namespace := Some (NsInt 25), name := NameBytes [0x00]\<rparr>)
             None) = Inr [0x87, 0x18, 0x19, 0x41, 0x00]"
proof -
  let ?ob = "\<lparr>child_norm_name = Some ''full_report'', child_enum = Some 0,
               child_parmspec = None\<rparr>"
  have h1: "namespace example_ref = Some (NsStr (''IANA'' @ '':'' @ ''amp_agent''))"
    by (simp add: example_ref_def)
  have h2: "CHR '':'' \<notin> set ''IANA''" and h3: "CHR '':'' \<notin> set ''amp_agent''" by simp_all
  have h4: "get_by_norm_name example_db ''amp_agent'' = Inr example_adm" by code_simp
  have h5: "enum example_adm = Some 1" by (simp add: example_adm_def)
  have h6: "AdmObjType_by_name (StructType_name (type_enum example_ref)) = Inr 5"
    by (simp add: example_ref_def AdmObjType_by_name_def AdmObjType_table_def)
  have h7: "ORM_TYPE (type_enum example_ref) = Some (the (ORM_TYPE RPTT))"
    by (simp add: example_ref_def ORM_TYPE_def)
  have h8: "name example_ref = NameStr ''full_report''" by (simp add: example_ref_def)
  have h9: "get_child example_adm (the (ORM_TYPE RPTT)) (Some ''full_report'') None = Inr (Some ?ob)"
    by code_simp
  have h10: "child_enum ?ob = Some 0" by simp
  have h11: "cbor_dumps (PInt 0) = Inr [0x00]"
    by (simp add: cbor_dumps_def encode_length_def initial_byte_def)
  note th = to_nn_replaces_namespace_and_name [OF h1 h2 h3 h4 h5 h6 h7 h8 h9 h10 h11, of True None]
  have c: "convert TO_NN example_db True (ReferenceARI example_ref None)
        = (ReferenceARI (example_ref\<lparr>namespace := Some (NsInt 25), name := NameBytes [0x00]\<rparr>)
             None, None)"
    by code_simp
  have e: "encode (ReferenceARI (example_ref\<lparr>namespace := Some (NsInt 25), name := NameBytes [0x00]\<rparr>)
             None) = Inr [0x87, 0x18, 0x19, 0x41, 0x00]"
    by code_simp
  from th h1 h2 h3 h4 h5 h6 h7 h8 h9 h11 c e show ?thesis by simp
qed

subsection \<open>A reference without a nickname\<close>

text \<open>
  Claim C4 does not hold of the code. When the ADM and its enumeration are found but the
  child is missing or has no enumeration, or the ADM has no enumeration, the reference
  stays as it is, with a \<open>RuntimeError\<close> exactly when \<open>must_nickname\<close> is set:
\<close>

lemma to_nn_without_enumeration:
  assumes "nn_lookup adms s ident = Inr (adm, nn, obj)"
    and "enum adm = None \<or> obj = None \<or> (\<exists>ob. obj = Some ob \<and> child_enum ob = None)"
  shows "to_nn adms must s ident params
    = ((ident, params), if must then Some RuntimeError else None)"
  using assms by (auto simp: to_nn_def Let_def split: option.splits)

text \<open>
  But an ADM that does not exist never reaches that branch: \<open>get_by_norm_name\<close> raises
  \<open>KeyError\<close>, with \<open>must_nickname\<close> false as well as true.
\<close>

theorem to_nn_missing_adm_raises:
  "get_by_norm_name \<lparr>adm_rows = [], loose_mdat = []\<rparr> ''missing'' = Inl KeyError
   \<and> convert TO_NN \<lparr>adm_rows = [], loose_mdat = []\<rparr> False
        (ReferenceARI \<lparr>namespace = Some (NsStr ''IANA:missing''), type_enum = CTRL,
                       name = NameStr ''run'', issuer = None, tag = None\<rparr> None)
        = (ReferenceARI \<lparr>namespace = Some (NsStr ''IANA:missing''), type_enum = CTRL,
                          name = NameStr ''run'', issuer = None, tag = None\<rparr> None,
           Some KeyError)
   \<and> convert TO_NN \<lparr>adm_rows = [], loose_mdat = []\<rparr> True
        (ReferenceARI \<lparr>namespace = Some (NsStr ''IANA:missing''), type_enum = CTRL,
                       name = NameStr ''run'', issuer = None, tag = None\<rparr> None)
        = (ReferenceARI \<lparr>namespace = Some (NsStr ''IANA:missing''), type_enum = CTRL,
                          name = NameStr ''run'', issuer = None, tag = None\<rparr> None,
           Some KeyError)"
  by code_simp

subsection \<open>Trees already in the target form\<close>

lemma convert_unchanged:
  "(\<And>i ps. P i \<Longrightarrow> convert_ari mode adms must i ps = ((i, ps), None)) \<Longrightarrow>
     all_refs P t \<Longrightarrow> convert mode adms must t = (t, None)"
  "(\<And>i ps. P i \<Longrightarrow> convert_ari mode adms must i ps = ((i, ps), None)) \<Longrightarrow>
     all_refs_list P ts \<Longrightarrow> convert_items mode adms must ts = (ts, None)"
proof (induction mode adms must t and mode adms must ts rule: convert_convert_items.induct)
  case (5 mode adms must ident params)
  from "5.prems"(2) have P: "P ident" by (cases params) simp_all
  have c: "convert_ari mode adms must ident params = ((ident, params), None)"
    by (rule "5.prems"(1) [OF P])
  show ?case
  proof (cases params)
    case None
    with c show ?thesis by simp
  next
    case (Some ps)
    with "5.prems"(2) have "all_refs_list P ps" by simp
    with "5.IH" [of "(ident, params)" None ident params ps] c Some "5.prems"(1)
    have "convert_items mode adms must ps = (ps, None)" by simp
    with c Some show ?thesis by simp
  qed
qed auto

text \<open>
  Claim C5. A \<open>TO_NN\<close> converter leaves a tree unchanged, and raises nothing, when all
  its references have integer namespaces; a \<open>FROM_NN\<close> converter does so when all its
  references have textual namespaces.
\<close>

theorem converter_idempotent_on_target_form:
  "(all_refs nickname_ns t \<longrightarrow> convert TO_NN adms must t = (t, None))
   \<and> (all_refs text_ns t \<longrightarrow> convert FROM_NN adms must t = (t, None))"
proof -
  have a: "nickname_ns i \<Longrightarrow> convert_ari TO_NN adms must i ps = ((i, ps), None)" for i ps
    by (auto simp: nickname_ns_def convert_ari_def split: option.splits nsid.splits)
  have b: "text_ns i \<Longrightarrow> convert_ari FROM_NN adms must i ps = ((i, ps), None)" for i ps
    by (auto simp: text_ns_def convert_ari_def split: option.splits nsid.splits)
  show ?thesis
    using convert_unchanged(1) [of nickname_ns TO_NN adms must t, OF a]
      convert_unchanged(1) [of text_ns FROM_NN adms must t, OF b]
    by blast
qed

text \<open>An instance of each: a reference with an AC of a reference and a literal.\<close>

theorem converter_idempotent_on_target_form_witness:
  "all_refs nickname_ns
     (ReferenceARI (example_ref\<lparr>namespace := Some (NsInt 25), name := NameBytes [0x00]\<rparr>)
        (Some [ACobj [ReferenceARI (example_ref\<lparr>namespace := Some (NsInt 25)\<rparr>) None],
               LiteralARI VAST (PInt 10)]))
   \<and> convert TO_NN example_db True
     (ReferenceARI (example_ref\<lparr>namespace := Some (NsInt 25), name := NameBytes [0x00]\<rparr>)
        (Some [ACobj [ReferenceARI (example_ref\<lparr>namespace := Some (NsInt 25)\<rparr>) None],
               LiteralARI VAST (PInt 10)]))
     = (ReferenceARI (example_ref\<lparr>namespace := Some (NsInt 25), name := NameBytes [0x00]\<rparr>)
        (Some [ACobj [ReferenceARI (example_ref\<lparr>namespace := Some (NsInt 25)\<rparr>) None],
               LiteralARI VAST (PInt 10)]), None)
   \<and> all_refs text_ns
     (ReferenceARI example_ref (Some [ACobj [ReferenceARI example_ref None],
               LiteralARI VAST (PInt 10)]))
   \<and> convert FROM_NN example_db True
     (ReferenceARI example_ref (Some [ACobj [ReferenceARI example_ref None],
               LiteralARI VAST (PInt 10)]))
     = (ReferenceARI example_ref (Some [ACobj [ReferenceARI example_ref None],
               LiteralARI VAST (PInt 10)]), None)"
proof -
  let ?t1 = "ReferenceARI (example_ref\<lparr>namespace := Some (NsInt 25), name := NameBytes [0x00]\<rparr>)
        (Some [ACobj [ReferenceARI (example_ref\<lparr>namespace := Some (NsInt 25)\<rparr>) None],
               LiteralARI VAST (PInt 10)])"
  let ?t2 = "ReferenceARI example_ref (Some [ACobj [ReferenceARI example_ref None],
               LiteralARI VAST (PInt 10)])"
  have a: "all_refs nickname_ns ?t1" by (simp add: nickname_ns_def example_ref_def)
  have b: "all_refs text_ns ?t2" by (simp add: text_ns_def example_ref_def)
  from converter_idempotent_on_target_form [of ?t1 example_db True]
    converter_idempotent_on_target_form [of ?t2 example_db True] a b
  show ?thesis by blast
qed

section \<open>Properties of the constraints\<close>

subsection \<open>Type names\<close>

lemma StructType_in_members: "t \<in> set StructType_members"
  by (cases t) (simp_all add: StructType_members_def)

lemma StructType_by_name_KeyError:
  "(\<exists>e. StructType_by_name s = Inl e) = (\<forall>t. s \<noteq> StructType_name t)"
proof -
  have "(\<exists>e. StructType_by_name s = Inl e)
      = (filter (\<lambda>t. StructType_name t = s) StructType_members = [])"
    by (simp add: StructType_by_name_def split: list.splits)
  also have "\<dots> = (\<forall>t. s \<noteq> StructType_name t)"
    using StructType_in_members by (auto simp: filter_empty_conv)
  finally show ?thesis .
qed

lemma check_type_name_empty:
  "(check_type_name top_obj tn = []) = (\<exists>t. tn = Some (StructType_name t))"
proof (cases tn)
  case None
  then show ?thesis by (simp add: check_type_name_def)
next
  case (Some s)
  show ?thesis
  proof (cases "StructType_by_name s")
    case (Inl e)
    then have "\<forall>t. s \<noteq> StructType_name t"
      using StructType_by_name_KeyError [of s] by auto
    with Inl Some show ?thesis by (auto simp: check_type_name_def)
  next
    case (Inr t)
    then have "\<not> (\<forall>t. s \<noteq> StructType_name t)"
      using StructType_by_name_KeyError [of s] by auto
    with Inr Some show ?thesis by (auto simp: check_type_name_def)
  qed
qed

lemma concat_check_type_name_empty:
  "(concat (map (check_type_name top_obj) tns) = [])
     = (\<forall>tn\<in>set tns. \<exists>t. tn = Some (StructType_name t))"
  by (simp add: check_type_name_empty)

text \<open>
  Claim C7, as the code has it: \<open>valid_type_name\<close> looks a type name up with
  \<open>StructType[type_name]\<close>, which compares the name as it is written. A Const, an Edd,
  an Oper or a Var gets no issue exactly when each of its type strings is the name of a
  \<open>StructType\<close> member letter for letter: the type of a Const or an Edd, the result type and
  every input type of an Oper, the type of a Var and that of its initializer if it has
  one.
\<close>

theorem valid_type_name_exact_names:
  "((valid_type_name (ObjConst c) db = Inr ([], 1))
      = (\<exists>t. const_type c = Some (StructType_name t)))
   \<and> ((valid_type_name (ObjEdd e) db = Inr ([], 1))
      = (\<exists>t. edd_type e = StructType_name t))
   \<and> ((valid_type_name (ObjOper p) db = Inr ([], 1 + length (in_type p)))
      = (\<forall>tn\<in>set (result_type p # in_type p). \<exists>t. tn = Some (StructType_name t)))
   \<and> ((valid_type_name (ObjVar v) db
         = Inr ([], case initializer v of None \<Rightarrow> 1 | Some init \<Rightarrow> 2))
      = ((\<exists>t. var_type v = StructType_name t)
         \<and> (\<forall>init. initializer v = Some init
              \<longrightarrow> (\<exists>t. expr_type init = Some (StructType_name t)))))"
proof -
  have c: "(valid_type_name (ObjConst c) db = Inr ([], 1))
     = (\<exists>t. const_type c = Some (StructType_name t))"
    by (simp add: valid_type_name_def valid_type_name_obj_def check_type_name_empty)
  have e: "(valid_type_name (ObjEdd e) db = Inr ([], 1))
     = (\<exists>t. edd_type e = StructType_name t)"
    by (simp add: valid_type_name_def valid_type_name_obj_def check_type_name_empty)
  have p: "(valid_type_name (ObjOper p) db = Inr ([], 1 + length (in_type p)))
     = (\<forall>tn\<in>set (result_type p # in_type p). \<exists>t. tn = Some (StructType_name t))"
    by (simp add: valid_type_name_def valid_type_name_obj_def check_type_name_empty)
  have v: "(valid_type_name (ObjVar v) db
       = Inr ([], case initializer v of None \<Rightarrow> 1 | Some init \<Rightarrow> 2))
     = ((\<exists>t. var_type v = StructType_name t)
        \<and> (\<forall>init. initializer v = Some init
             \<longrightarrow> (\<exists>t. expr_type init = Some (StructType_name t))))"
    by (cases "initializer v")
      (simp_all add: valid_type_name_def valid_type_name_obj_def check_type_name_empty)
  from c e p v show ?thesis by (intro conjI)
qed

text \<open>An instance: an \<open>Oper\<close> whose result and both inputs have the type \<open>UINT\<close>.\<close>

theorem valid_type_name_exact_names_witness:
  "result_type plus_oper = Some (StructType_name UINT)
   \<and> in_type plus_oper = [Some (StructType_name UINT), Some (StructType_name UINT)]
   \<and> valid_type_name (ObjOper plus_oper) uint_db = Inr ([], 3)"
proof -
  have r: "result_type plus_oper = Some (StructType_name UINT)"
    and i: "in_type plus_oper = [Some (StructType_name UINT), Some (StructType_name UINT)]"
    by (simp_all add: plus_oper_def)
  have "\<forall>tn\<in>set (result_type plus_oper # in_type plus_oper). tn = Some (StructType_name UINT)"
    by (simp add: plus_oper_def)
  then have h: "\<forall>tn\<in>set (result_type plus_oper # in_type plus_oper).
      \<exists>t. tn = Some (StructType_name t)"
    by blast
  have l: "1 + length (in_type plus_oper) = 3" by (simp add: plus_oper_def)
  from valid_type_name_exact_names [where p = plus_oper and db = uint_db] h
  have "valid_type_name (ObjOper plus_oper) uint_db = Inr ([], 1 + length (in_type plus_oper))"
    by blast
  with r i l show ?thesis by simp
qed

text \<open>
  The comparison is not case-insensitive: the type \<open>uint\<close> is \<open>UINT\<close> in upper case, and
  a \<open>Var\<close> of that type gets an issue, from the constraint and from the \<open>Checker\<close>.
\<close>

theorem valid_type_name_lowercase_counterexample:
  "map to_upper (var_type uint_var) = StructType_name UINT
   \<and> valid_type_name (ObjVar uint_var) uint_db
       = Inr ([new_Issue (ObjVar uint_var)
                 (UnknownTypeName (Some ''organization'') (Some ''uint''))], 1)
   \<and> check uint_db None
       = Inr [\<lparr>check_name = Some ''ace.constraints.basic.valid_type_name'',
               adm_name = Some ''myadm'', issue_obj = ObjVar uint_var,
               detail = UnknownTypeName (Some ''organization'') (Some ''uint'')\<rparr>]"
  by code_simp

subsection \<open>Required metadata\<close>

text \<open>Every constraint makes its issues without a check name, and the \<open>Checker\<close> fills in
  the name of the constraint that ran.\<close>

lemma dup_issues_fresh: "\<forall>i\<in>set (dup_issues a f db). check_name i = None"
  by (auto simp: dup_issues_def Let_def new_Issue_def)

lemma unique_adm_names_fresh:
  "unique_adm_names obj db = Inr (is, k) \<Longrightarrow> \<forall>i\<in>set is. check_name i = None"
  using dup_issues_fresh by (auto simp: unique_adm_names_def)

lemma same_file_name_fresh:
  "same_file_name obj db = Inr (is, k) \<Longrightarrow> \<forall>i\<in>set is. check_name i = None"
  by (auto simp: same_file_name_def new_Issue_def Let_def
      split: orm_obj.splits option.splits if_splits)

lemma dupe_scan_fresh: "\<forall>i\<in>set (dupe_scan l seen dupes xs). check_name i = None"
  by (induction l seen dupes xs rule: dupe_scan.induct) (auto simp: new_Issue_def)

lemma unique_object_names_fresh:
  "unique_object_names obj db = Inr (is, k) \<Longrightarrow> \<forall>i\<in>set is. check_name i = None"
  using dupe_scan_fresh by (auto simp: unique_object_names_def split: orm_obj.splits)

lemma check_type_name_fresh: "\<forall>i\<in>set (check_type_name t n). check_name i = None"
  by (auto simp: check_type_name_def new_Issue_def split: sum.splits option.splits)

lemma valid_type_name_obj_fresh:
  "\<forall>i\<in>set (fst (valid_type_name_obj obj)). check_name i = None"
  using check_type_name_fresh
  by (auto simp: valid_type_name_obj_def split: orm_obj.splits option.splits)

lemma valid_type_name_obj_issues:
  "valid_type_name_obj obj = (is, k) \<Longrightarrow> \<forall>i\<in>set is. check_name i = None"
  using valid_type_name_obj_fresh [of obj] by simp

lemma valid_type_name_fresh:
  assumes "valid_type_name obj db = Inr (is, k)"
  shows "\<forall>i\<in>set is. check_name i = None"
proof (cases "\<exists>adm. obj = ObjAdmFile adm")
  case True
  then obtain adm where "obj = ObjAdmFile adm" ..
  with assms valid_type_name_obj_fresh show ?thesis
    by (auto simp: valid_type_name_def iter_call_def Let_def)
next
  case False
  with assms have "valid_type_name_obj obj = (is, k)"
    by (auto simp: valid_type_name_def split: orm_obj.splits)
  then show ?thesis by (rule valid_type_name_obj_issues)
qed

lemma check_reference_fresh:
  "check_reference db t x = Inr (is, k) \<Longrightarrow> \<forall>i\<in>set is. check_name i = None"
  by (auto simp: check_reference_def bindE_def new_Issue_def Let_def
      split: sum.splits if_splits option.splits)

lemma iter_refs_fresh:
  "iter_refs db t xs = Inr (is, k) \<Longrightarrow> \<forall>i\<in>set is. check_name i = None"
proof (induction xs arbitrary: "is" k)
  case Nil
  then show ?case by simp
next
  case (Cons x xs)
  from Cons.prems obtain a n b m
    where a: "check_reference db t x = Inr (a, n)"
      and b: "iter_refs db t xs = Inr (b, m)" and i: "is = a @ b"
    by (auto simp: bindE_def split: sum.splits prod.splits)
  from check_reference_fresh [OF a] Cons.IH [OF b] i show ?case by auto
qed

lemma valid_reference_obj_fresh:
  "valid_reference_obj db obj = Inr (is, k) \<Longrightarrow> \<forall>i\<in>set is. check_name i = None"
  using iter_refs_fresh check_reference_fresh
  by (auto simp: valid_reference_obj_def split: orm_obj.splits option.splits)

lemma iter_objs_fresh:
  "iter_objs db xs = Inr (is, k) \<Longrightarrow> \<forall>i\<in>set is. check_name i = None"
proof (induction xs arbitrary: "is" k)
  case Nil
  then show ?case by simp
next
  case (Cons x xs)
  from Cons.prems obtain a n b m
    where a: "valid_reference_obj db x = Inr (a, n)"
      and b: "iter_objs db xs = Inr (b, m)" and i: "is = a @ b"
    by (auto simp: bindE_def split: sum.splits prod.splits)
  from valid_reference_obj_fresh [OF a] Cons.IH [OF b] i show ?case by auto
qed

lemma valid_reference_ari_fresh:
  "valid_reference_ari obj db = Inr (is, k) \<Longrightarrow> \<forall>i\<in>set is. check_name i = None"
  using iter_objs_fresh valid_reference_obj_fresh
  by (auto simp: valid_reference_ari_def split: orm_obj.splits)

lemma fill_names_check_name:
  "check_name i = None \<Longrightarrow> check_name (fill_names n adm i) = Some n"
  by (simp add: fill_names_def Let_def split: orm_obj.splits)

lemma add_result_names:
  assumes "add_result db n c adm = Inr is"
    and "\<And>is0 k. call c adm db = Inr (is0, k) \<Longrightarrow> \<forall>i\<in>set is0. check_name i = None"
  shows "\<forall>i\<in>set is. check_name i = Some n"
  using assms
  by (auto simp: add_result_def bindE_def fill_names_check_name split: sum.splits prod.splits)

lemma run_all_names:
  assumes "run_all db csts adm = Inr is"
    and "\<And>n c is0 k. (n, c) \<in> set csts \<Longrightarrow> call c adm db = Inr (is0, k)
           \<Longrightarrow> \<forall>i\<in>set is0. check_name i = None"
  shows "\<forall>i\<in>set is. check_name i \<in> Some ` fst ` set csts"
  using assms
proof (induction csts arbitrary: "is")
  case Nil
  then show ?case by simp
next
  case (Cons nc csts)
  obtain n c where nc: "nc = (n, c)" by (cases nc)
  from Cons.prems(1) nc obtain a b
    where a: "add_result db n c adm = Inr a"
      and b: "run_all db csts adm = Inr b" and i: "is = a @ b"
    by (auto simp: bindE_def split: sum.splits)
  have "\<forall>i\<in>set a. check_name i = Some n"
  proof (rule add_result_names [OF a])
    fix is0 k
    assume "call c adm db = Inr (is0, k)"
    then show "\<forall>i\<in>set is0. check_name i = None"
      using Cons.prems(2) [of n c is0 k] nc by simp
  qed
  moreover have "\<forall>i\<in>set b. check_name i \<in> Some ` fst ` set csts"
  proof (rule Cons.IH [OF b])
    fix n' c' is0 k
    assume "(n', c') \<in> set csts" and "call c' adm db = Inr (is0, k)"
    then show "\<forall>i\<in>set is0. check_name i = None"
      using Cons.prems(2) [of n' c' is0 k] by simp
  qed
  ultimately show ?case using i nc by auto
qed

lemma run_adms_names:
  assumes "run_adms db csts adms = Inr is"
    and "\<And>adm is0. run_all db csts (ObjAdmFile adm) = Inr is0 \<Longrightarrow> \<forall>i\<in>set is0. P i"
  shows "\<forall>i\<in>set is. P i"
  using assms
proof (induction adms arbitrary: "is")
  case Nil
  then show ?case by simp
next
  case (Cons adm adms)
  from Cons.prems(1) obtain a b
    where a: "run_all db csts (ObjAdmFile adm) = Inr a"
      and b: "run_adms db csts adms = Inr b" and i: "is = a @ b"
    by (auto simp: bindE_def split: sum.splits)
  from Cons.prems(2) [OF a] Cons.IH [OF b Cons.prems(2)] i show ?case by auto
qed

lemma global_constraints:
  "filter (\<lambda>(n, c). is_global c) CONSTRAINTS
     = [(''ace.constraints.basic.unique_adm_names'',
         \<lparr>is_global = True, call = unique_adm_names\<rparr>)]"
  by (simp add: CONSTRAINTS_def)

lemma adm_constraints:
  "filter (\<lambda>(n, c). \<not> is_global c) CONSTRAINTS
     = [(''ace.constraints.basic.minimal_metadata'',
         \<lparr>is_global = False, call = minimal_metadata\<rparr>),
        (''ace.constraints.basic.same_file_name'',
         \<lparr>is_global = False, call = same_file_name\<rparr>),
        (''ace.constraints.basic.unique_object_names'',
         \<lparr>is_global = False, call = unique_object_names\<rparr>),
        (''ace.constraints.basic.valid_type_name'',
         \<lparr>is_global = False, call = valid_type_name\<rparr>),
        (''ace.constraints.basic.valid_reference_ari'',
         \<lparr>is_global = False, call = valid_reference_ari\<rparr>)]"
  by (simp add: CONSTRAINTS_def)

lemma minimal_metadata_on_adm: "minimal_metadata (ObjAdmFile adm) db = Inr ([], 0)"
  by (simp add: minimal_metadata_def)

text \<open>
  Claim C8 does not hold of the code. \<open>minimal_metadata\<close> is registered without
  \<open>is_global\<close>, so the \<open>Checker\<close> calls it with each \<open>AdmFile\<close>, and its body runs only
  under \<open>obj is None\<close>. Whatever the catalog holds, no issue that the \<open>Checker\<close> returns
  carries the name of \<open>minimal_metadata\<close>.
\<close>

theorem minimal_metadata_never_reported:
  assumes "check db src = Inr issues"
  shows "\<forall>i\<in>set issues. check_name i \<noteq> Some ''ace.constraints.basic.minimal_metadata''"
proof -
  let ?mm = "''ace.constraints.basic.minimal_metadata''"
  let ?adms = "case src of Some a \<Rightarrow> [a] | None \<Rightarrow> adm_rows db"
  from assms obtain g p
    where g: "run_all db (filter (\<lambda>(n, c). is_global c) CONSTRAINTS) ObjNone = Inr g"
      and p: "run_adms db (filter (\<lambda>(n, c). \<not> is_global c) CONSTRAINTS) ?adms = Inr p"
      and i: "issues = g @ p"
    by (auto simp: check_def bindE_def Let_def split: sum.splits)
  have "\<forall>i\<in>set g. check_name i \<in> Some ` fst ` set (filter (\<lambda>(n, c). is_global c) CONSTRAINTS)"
    by (rule run_all_names [OF g]) (auto simp: global_constraints dest: unique_adm_names_fresh [THEN bspec])
  then have G: "\<forall>i\<in>set g. check_name i \<noteq> Some ?mm"
    by (auto simp: global_constraints)
  have P: "\<forall>i\<in>set p. check_name i \<noteq> Some ?mm"
  proof (rule run_adms_names [OF p])
    fix adm is0
    assume r: "run_all db (filter (\<lambda>(n, c). \<not> is_global c) CONSTRAINTS) (ObjAdmFile adm) = Inr is0"
    let ?rest = "tl (filter (\<lambda>(n, c). \<not> is_global c) CONSTRAINTS)"
    from r have r': "run_all db ?rest (ObjAdmFile adm) = Inr is0"
      by (auto simp: adm_constraints add_result_def minimal_metadata_on_adm bindE_def
          split: sum.splits)
    have "\<forall>i\<in>set is0. check_name i \<in> Some ` fst ` set ?rest"
      by (rule run_all_names [OF r'])
        (auto simp: adm_constraints
          dest: same_file_name_fresh [THEN bspec] unique_object_names_fresh [THEN bspec]
            valid_type_name_fresh [THEN bspec] valid_reference_ari_fresh [THEN bspec])
    then show "\<forall>i\<in>set is0. check_name i \<noteq> Some ?mm"
      by (auto simp: adm_constraints)
  qed
  from G P i show ?thesis by auto
qed

text \<open>
  An instance: for an ADM with no \<open>mdat\<close> entry at all, the \<open>Checker\<close> returns the issue
  of \<open>same_file_name\<close> and no other.
\<close>

theorem minimal_metadata_never_reported_witness:
  "mdat bare_adm = []
   \<and> check bare_db None
       = Inr [\<lparr>check_name = Some ''ace.constraints.basic.same_file_name'',
               adm_name = Some ''myadm'', issue_obj = ObjAdmFile bare_adm,
               detail = DifferentFileName (Some ''myadm'') ''/adms/othername.json''\<rparr>]
   \<and> check_name \<lparr>check_name = Some ''ace.constraints.basic.same_file_name'',
               adm_name = Some ''myadm'', issue_obj = ObjAdmFile bare_adm,
               detail = DifferentFileName (Some ''myadm'') ''/adms/othername.json''\<rparr>
       \<noteq> Some ''ace.constraints.basic.minimal_metadata''"
proof -
  have c: "check bare_db None
       = Inr [\<lparr>check_name = Some ''ace.constraints.basic.same_file_name'',
               adm_name = Some ''myadm'', issue_obj = ObjAdmFile bare_adm,
               detail = DifferentFileName (Some ''myadm'') ''/adms/othername.json''\<rparr>]"
    by code_simp
  have m: "mdat bare_adm = []" by (simp add: bare_adm_def)
  from minimal_metadata_never_reported [OF c] c m show ?thesis by simp
qed

end
